theory Spec2Isabelle
  imports Complex_Main
begin

section \<open>Coordinate conversions of coordsys.js\<close>

text \<open>
  The library converts between WGS84 geodetic coordinates, PSD93 geodetic coordinates
  (Clarke 1880 ellipsoid) and PSD93 UTM grid coordinates. Every function is closed-form
  arithmetic on JavaScript Numbers.

  Numbers are embedded as HOL reals: \<open>+\<close>, \<open>-\<close>, \<open>*\<close>, \<open>/\<close> are the exact field
  operations, \<open>Math.sqrt\<close>, \<open>Math.sin\<close>, \<open>Math.cos\<close>, \<open>Math.tan\<close> are \<^const>\<open>sqrt\<close>,
  \<^const>\<open>sin\<close>, \<open>cos\<close>, \<open>tan\<close>, \<open>Math.PI\<close> is \<^const>\<open>pi\<close>, and \<open>Math.pow\<close> with a literal
  integer exponent is \<open>^\<close>. Rounding, signed zeros, NaN and the infinities of IEEE-754
  doubles are outside this embedding. Where HOL's total functions differ from the
  ideal real function (\<open>x / 0 = 0\<close>, hence \<open>tan (pi/2) = 0\<close>), the value stands for a
  non-finite double of the program.
\<close>

subsection \<open>Constants and unit conversions\<close>

record helmert =
  dx :: real
  dy :: real
  dz :: real
  rx :: real
  ry :: real
  rz :: real
  scale :: real

text \<open>Helmert parameters WGS84 to PSD93 (EPSG:1439): metres, arc-seconds, ppm.\<close>

definition helmertParams :: helmert where
  "helmertParams = \<lparr> dx = - 180.624, dy = - 225.516, dz = 173.919,
     rx = - 0.81, ry = - 1.898, rz = 8.336, scale = 16.71006 \<rparr>"

definition deg2rad :: "real \<Rightarrow> real" where
  "deg2rad deg = (deg * pi) / 180"

definition rad2deg :: "real \<Rightarrow> real" where
  "rad2deg rad = (rad * 180) / pi"

definition arcsec2rad :: "real \<Rightarrow> real" where
  "arcsec2rad sec = (sec * (pi / 180)) / 3600"

text \<open>
  \<open>Math.atan2(y, x)\<close> on finite numbers: the angle of the point \<open>(x, y)\<close> in
  \<open>(-pi, pi]\<close>, and \<open>0\<close> at the origin.
\<close>

definition atan2 :: "real \<Rightarrow> real \<Rightarrow> real" where
  "atan2 y x =
     (if 0 < x then arctan (y / x)
      else if x < 0 then (if 0 \<le> y then arctan (y / x) + pi else arctan (y / x) - pi)
      else if 0 < y then pi / 2
      else if y < 0 then - (pi / 2)
      else 0)"

subsection \<open>Geodetic and Cartesian coordinates\<close>

text \<open>The JavaScript arrays \<open>[X, Y, Z]\<close> and \<open>[lat, lon, h]\<close> are triples.\<close>

definition geodeticToECEF :: "real \<Rightarrow> real \<Rightarrow> real \<Rightarrow> real \<Rightarrow> real \<Rightarrow> real \<times> real \<times> real" where
  "geodeticToECEF lat lon h a f =
     (let lat = deg2rad lat;
          lon = deg2rad lon;
          e2 = 2 * f - f * f;
          N = a / sqrt (1 - e2 * sin lat * sin lat);
          X = (N + h) * cos lat * cos lon;
          Y = (N + h) * cos lat * sin lon;
          Z = (N * (1 - e2) + h) * sin lat
      in (X, Y, Z))"

definition ecefToGeodetic :: "real \<Rightarrow> real \<Rightarrow> real \<Rightarrow> real \<Rightarrow> real \<Rightarrow> real \<times> real \<times> real" where
  "ecefToGeodetic X Y Z a f =
     (let e2 = 2 * f - f * f;
          ep2 = e2 / (1 - e2);
          p = sqrt (X * X + Y * Y);
          theta = atan2 (Z * a) (p * (1 - f) * a);
          lon = atan2 Y X;
          lat = atan2 (Z + ep2 * (1 - f) * a * sin theta ^ 3)
                      (p - e2 * a * cos theta ^ 3);
          N = a / sqrt (1 - e2 * sin lat * sin lat);
          h = p / cos lat - N;
          lat = rad2deg lat
      in (lat, rad2deg lon, h))"

subsection \<open>The Helmert transformation\<close>

text \<open>
  Lines 68 to 78 of \<open>wgs84ToPSD93\<close>: the seven-parameter transformation in the
  Position Vector convention, with the parameters as stored.
\<close>

definition helmertForward :: "real \<times> real \<times> real \<Rightarrow> real \<times> real \<times> real" where
  "helmertForward P =
     (case P of (Xs, Ys, Zs) \<Rightarrow>
       let s = scale helmertParams * (1 / 1000000);
           rx = arcsec2rad (rx helmertParams);
           ry = arcsec2rad (ry helmertParams);
           rz = arcsec2rad (rz helmertParams);
           tX = dx helmertParams;
           tY = dy helmertParams;
           tZ = dz helmertParams;
           Xt = Xs + tX + s * Xs - rz * Ys + ry * Zs;
           Yt = Ys + tY + rz * Xs + s * Ys - rx * Zs;
           Zt = Zs + tZ - ry * Xs + rx * Ys + s * Zs
       in (Xt, Yt, Zt))"

text \<open>
  Lines 92 to 102 of \<open>psd93ToWGS84\<close>: the same linear form with all seven
  parameters negated.
\<close>

definition helmertInverse :: "real \<times> real \<times> real \<Rightarrow> real \<times> real \<times> real" where
  "helmertInverse P =
     (case P of (Xt, Yt, Zt) \<Rightarrow>
       let s = - scale helmertParams * (1 / 1000000);
           rx = - arcsec2rad (rx helmertParams);
           ry = - arcsec2rad (ry helmertParams);
           rz = - arcsec2rad (rz helmertParams);
           tX = - dx helmertParams;
           tY = - dy helmertParams;
           tZ = - dz helmertParams;
           Xs = Xt + tX + s * Xt - rz * Yt + ry * Zt;
           Ys = Yt + tY + rz * Xt + s * Yt - rx * Zt;
           Zs = Zt + tZ - ry * Xt + rx * Yt + s * Zt
       in (Xs, Ys, Zs))"

subsection \<open>Datum conversions\<close>

text \<open>The default parameter \<open>h = 0\<close> is passed explicitly by the caller of the model.\<close>

definition wgs84ToPSD93 :: "real \<Rightarrow> real \<Rightarrow> real \<Rightarrow> real \<times> real \<times> real" where
  "wgs84ToPSD93 lat lon h =
     (let a = 6378137.0;
          f = 1 / 298.257223563;
          a_psd = 6378249.145;
          f_psd = 1 / 293.465
      in case helmertForward (geodeticToECEF lat lon h a f) of
           (Xt, Yt, Zt) \<Rightarrow> ecefToGeodetic Xt Yt Zt a_psd f_psd)"

definition psd93ToWGS84 :: "real \<Rightarrow> real \<Rightarrow> real \<Rightarrow> real \<times> real \<times> real" where
  "psd93ToWGS84 lat lon h =
     (let a_psd = 6378249.145;
          f_psd = 1 / 293.465;
          a = 6378137.0;
          f = 1 / 298.257223563
      in case helmertInverse (geodeticToECEF lat lon h a_psd f_psd) of
           (Xs, Ys, Zs) \<Rightarrow> ecefToGeodetic Xs Ys Zs a f)"

subsection \<open>UTM projection on PSD93\<close>

record utm =
  utm_easting :: real
  utm_northing :: real
  utm_zone :: int

record geo =
  geo_lat :: real
  geo_lon :: real

definition psd93ToUTM :: "real \<Rightarrow> real \<Rightarrow> int \<Rightarrow> utm" where
  "psd93ToUTM lat lon zone =
     (let a = 6378249.145;
          f = 1 / 293.465;
          k0 = 0.9996;
          e2 = 2 * f - f * f;
          e = sqrt e2;
          latRad = deg2rad lat;
          lonRad = deg2rad lon;
          zoneCM = of_int (6 * zone - 183);
          lon0 = deg2rad zoneCM;
          N = a / sqrt (1 - e2 * sin latRad * sin latRad);
          T = tan latRad * tan latRad;
          C = (e2 / (1 - e2)) * cos latRad * cos latRad;
          A = cos latRad * (lonRad - lon0);
          M = a *
            ((1 - e2 / 4 - (3 * e2 * e2) / 64 - (5 * e2 * e2 * e2) / 256) * latRad -
             ((3 * e2) / 8 + (3 * e2 * e2) / 32 + (45 * e2 * e2 * e2) / 1024) *
               sin (2 * latRad) +
             ((15 * e2 * e2) / 256 + (45 * e2 * e2 * e2) / 1024) *
               sin (4 * latRad) -
             ((35 * e2 * e2 * e2) / 3072) * sin (6 * latRad));
          easting =
            500000 +
            k0 * N *
              (A +
               ((1 - T + C) * A ^ 3) / 6 +
               ((5 - 18 * T + T * T + 72 * C - (58 * e2) / (1 - e2)) * A ^ 5) / 120);
          northing =
            k0 *
            (M +
             N * tan latRad *
               ((A * A) / 2 +
                ((5 - T + 9 * C + 4 * C * C) * A ^ 4) / 24 +
                ((61 - 58 * T + T * T + 600 * C - (330 * e2) / (1 - e2)) * A ^ 6) / 720))
      in \<lparr> utm_easting = easting, utm_northing = northing, utm_zone = zone \<rparr>)"

text \<open>
  \<open>Math.pow(b, 1.5)\<close> has a non-integer exponent: it is \<open>powr\<close>. Its base
  \<open>1 - e2 * sin phi1 * sin phi1\<close> is positive.
\<close>

definition utmToPSD93 :: "real \<Rightarrow> real \<Rightarrow> int \<Rightarrow> geo" where
  "utmToPSD93 easting northing zone =
     (let a = 6378249.145;
          f = 1 / 293.465;
          k0 = 0.9996;
          e2 = 2 * f - f * f;
          e = sqrt e2;
          e1 = (1 - sqrt (1 - e2)) / (1 + sqrt (1 - e2));
          zoneCM = of_int (6 * zone - 183);
          lon0 = deg2rad zoneCM;
          x = easting - 500000;
          y = northing;
          M = y / k0;
          mu = M / (a * (1 - e2 / 4 - (3 * e2 * e2) / 64 - (5 * e2 * e2 * e2) / 256));
          phi1 =
            mu +
            ((3 * e1) / 2 - (27 * e1 ^ 3) / 32) * sin (2 * mu) +
            ((21 * e1 * e1) / 16 - (55 * e1 ^ 4) / 32) * sin (4 * mu) +
            ((151 * e1 ^ 3) / 96) * sin (6 * mu) +
            ((1097 * e1 ^ 4) / 512) * sin (8 * mu);
          N1 = a / sqrt (1 - e2 * sin phi1 * sin phi1);
          T1 = tan phi1 * tan phi1;
          C1 = (e2 / (1 - e2)) * cos phi1 * cos phi1;
          R1 = (a * (1 - e2)) / ((1 - e2 * sin phi1 * sin phi1) powr 1.5);
          D = x / (N1 * k0);
          lat = rad2deg
            (phi1 -
             ((N1 * tan phi1) / R1) *
               ((D * D) / 2 -
                ((5 + 3 * T1 + 10 * C1 - 4 * C1 * C1 - (9 * e2) / (1 - e2)) * D ^ 4) / 24 +
                ((61 + 90 * T1 + 298 * C1 + 45 * T1 * T1 - (252 * e2) / (1 - e2) -
                  3 * C1 * C1) * D ^ 6) / 720));
          lon = rad2deg
            (lon0 +
             (D -
              ((1 + 2 * T1 + C1) * D ^ 3) / 6 +
              ((5 - 2 * C1 + 28 * T1 - 3 * C1 * C1 + (8 * e2) / (1 - e2) +
                24 * T1 * T1) * D ^ 5) / 120) / cos phi1)
      in \<lparr> geo_lat = lat, geo_lon = lon \<rparr>)"

subsection \<open>Snyder's transverse Mercator series, as the specification words them\<close>

text \<open>
  The specification describes the forward projection as the standard closed-form series
  of Snyder with \<open>e\<^sup>2 = 2f - f\<^sup>2\<close>, \<open>N = a / sqrt (1 - e\<^sup>2 sin\<^sup>2 lat)\<close>,
  \<open>A = cos lat * (lon - lon0)\<close>, a four-term meridional arc \<open>M\<close>, an easting series up to
  the fifth power of \<open>A\<close> and a northing series up to the sixth. The definitions below
  write these series down independently of the program, for an ellipsoid \<open>a\<close>, \<open>f\<close>, a
  scale factor \<open>k0\<close> and a central meridian \<open>lon0\<close>; angles are in radians. \<open>snyder_x\<close>
  is the distance east of the central meridian and \<open>snyder_y\<close> the distance north of
  the equator, both without any false origin.
\<close>

definition snyder_M :: "real \<Rightarrow> real \<Rightarrow> real \<Rightarrow> real" where
  "snyder_M a e2 phi =
     a * ((1 - e2 / 4 - 3 * e2\<^sup>2 / 64 - 5 * e2 ^ 3 / 256) * phi
          - (3 * e2 / 8 + 3 * e2\<^sup>2 / 32 + 45 * e2 ^ 3 / 1024) * sin (2 * phi)
          + (15 * e2\<^sup>2 / 256 + 45 * e2 ^ 3 / 1024) * sin (4 * phi)
          - (35 * e2 ^ 3 / 3072) * sin (6 * phi))"

definition snyder_x :: "real \<Rightarrow> real \<Rightarrow> real \<Rightarrow> real \<Rightarrow> real \<Rightarrow> real \<Rightarrow> real" where
  "snyder_x a f k0 lon0 phi lam =
     (let e2 = 2 * f - f\<^sup>2;
          ep2 = e2 / (1 - e2);
          N = a / sqrt (1 - e2 * (sin phi)\<^sup>2);
          T = (tan phi)\<^sup>2;
          C = ep2 * (cos phi)\<^sup>2;
          A = cos phi * (lam - lon0)
      in k0 * N * (A + (1 - T + C) * A ^ 3 / 6
           + (5 - 18 * T + T\<^sup>2 + 72 * C - 58 * ep2) * A ^ 5 / 120))"

definition snyder_y :: "real \<Rightarrow> real \<Rightarrow> real \<Rightarrow> real \<Rightarrow> real \<Rightarrow> real \<Rightarrow> real" where
  "snyder_y a f k0 lon0 phi lam =
     (let e2 = 2 * f - f\<^sup>2;
          ep2 = e2 / (1 - e2);
          N = a / sqrt (1 - e2 * (sin phi)\<^sup>2);
          T = (tan phi)\<^sup>2;
          C = ep2 * (cos phi)\<^sup>2;
          A = cos phi * (lam - lon0);
          M = snyder_M a e2 phi
      in k0 * (M + N * tan phi * (A\<^sup>2 / 2
           + (5 - T + 9 * C + 4 * C\<^sup>2) * A ^ 4 / 24
           + (61 - 58 * T + T\<^sup>2 + 600 * C - 330 * ep2) * A ^ 6 / 720)))"

text \<open>
  The inverse projection is described as the footpoint latitude method: \<open>M\<close> from the
  northing and \<open>k0\<close>, the footpoint latitude \<open>phi1\<close> by a four-term series in
  \<open>mu = M / (a (1 - e\<^sup>2/4 - 3e\<^sup>4/64 - 5e\<^sup>6/256))\<close>, then series in \<open>D = x / (N1 k0)\<close> up to the
  sixth power for the latitude and the fifth for the longitude, the latter added to the
  central meridian \<open>lon0\<close>. Here \<open>x\<close> is the distance east of the central meridian and
  \<open>y\<close> the distance north of the equator; the results are in radians.
\<close>

definition snyder_footpoint :: "real \<Rightarrow> real \<Rightarrow> real \<Rightarrow> real" where
  "snyder_footpoint a e2 M =
     (let e1 = (1 - sqrt (1 - e2)) / (1 + sqrt (1 - e2));
          mu = M / (a * (1 - e2 / 4 - 3 * e2\<^sup>2 / 64 - 5 * e2 ^ 3 / 256))
      in mu + (3 * e1 / 2 - 27 * e1 ^ 3 / 32) * sin (2 * mu)
            + (21 * e1\<^sup>2 / 16 - 55 * e1 ^ 4 / 32) * sin (4 * mu)
            + (151 * e1 ^ 3 / 96) * sin (6 * mu)
            + (1097 * e1 ^ 4 / 512) * sin (8 * mu))"

definition snyder_phi :: "real \<Rightarrow> real \<Rightarrow> real \<Rightarrow> real \<Rightarrow> real \<Rightarrow> real" where
  "snyder_phi a f k0 x y =
     (let e2 = 2 * f - f\<^sup>2;
          ep2 = e2 / (1 - e2);
          phi1 = snyder_footpoint a e2 (y / k0);
          N1 = a / sqrt (1 - e2 * (sin phi1)\<^sup>2);
          T1 = (tan phi1)\<^sup>2;
          C1 = ep2 * (cos phi1)\<^sup>2;
          R1 = a * (1 - e2) / (1 - e2 * (sin phi1)\<^sup>2) powr (3 / 2);
          D = x / (N1 * k0)
      in phi1 - (N1 * tan phi1 / R1) * (D\<^sup>2 / 2
           - (5 + 3 * T1 + 10 * C1 - 4 * C1\<^sup>2 - 9 * ep2) * D ^ 4 / 24
           + (61 + 90 * T1 + 298 * C1 + 45 * T1\<^sup>2 - 252 * ep2 - 3 * C1\<^sup>2) * D ^ 6 / 720))"

definition snyder_lam :: "real \<Rightarrow> real \<Rightarrow> real \<Rightarrow> real \<Rightarrow> real \<Rightarrow> real \<Rightarrow> real" where
  "snyder_lam a f k0 lon0 x y =
     (let e2 = 2 * f - f\<^sup>2;
          ep2 = e2 / (1 - e2);
          phi1 = snyder_footpoint a e2 (y / k0);
          N1 = a / sqrt (1 - e2 * (sin phi1)\<^sup>2);
          T1 = (tan phi1)\<^sup>2;
          C1 = ep2 * (cos phi1)\<^sup>2;
          D = x / (N1 * k0)
      in lon0 + (D - (1 + 2 * T1 + C1) * D ^ 3 / 6
           + (5 - 2 * C1 + 28 * T1 - 3 * C1\<^sup>2 + 8 * ep2 + 24 * T1\<^sup>2) * D ^ 5 / 120) / cos phi1)"

subsection \<open>Taylor polynomials for numeric bounds\<close>

text \<open>
  The Maclaurin polynomials of sine (degree 11) and cosine (degree 12). They are not
  part of the program: the numeric bounds on the reference point are derived from them.
\<close>

definition sinP :: "real \<Rightarrow> real" where
  "sinP x = x - x ^ 3 / 6 + x ^ 5 / 120 - x ^ 7 / 5040 + x ^ 9 / 362880 - x ^ 11 / 39916800"

definition cosP :: "real \<Rightarrow> real" where
  "cosP x = 1 - x ^ 2 / 2 + x ^ 4 / 24 - x ^ 6 / 720 + x ^ 8 / 40320 - x ^ 10 / 3628800
            + x ^ 12 / 479001600"

section \<open>Basic facts\<close>

lemma rad2deg_deg2rad: "rad2deg (deg2rad d) = d"
  by (simp add: rad2deg_def deg2rad_def)

lemma deg2rad_rad2deg: "deg2rad (rad2deg r) = r"
  by (simp add: rad2deg_def deg2rad_def)

lemma deg2rad_0: "deg2rad 0 = 0"
  by (simp add: deg2rad_def)

lemma deg2rad_minus: "deg2rad (- d) = - deg2rad d"
  by (simp add: deg2rad_def)

lemma deg2rad_add_sub: "deg2rad (c + d) - deg2rad c = deg2rad d"
  by (simp add: deg2rad_def field_simps)

lemma deg2rad_sub_sub: "deg2rad (c - d) - deg2rad c = - deg2rad d"
  by (simp add: deg2rad_def field_simps)

lemma rad2deg_add: "rad2deg (u + v) = rad2deg u + rad2deg v"
  by (simp add: rad2deg_def field_simps)

lemma rad2deg_minus: "rad2deg (- u) = - rad2deg u"
  by (simp add: rad2deg_def)

lemma diff_diff_self: "(a::real) - x - a = - x"
  by simp

subsection \<open>The range of atan2\<close>

lemma atan2_range: "- pi < atan2 y x \<and> atan2 y x \<le> pi"
proof -
  have lo: "- (pi / 2) < arctan (y / x)" by (rule arctan_lbound)
  have hi: "arctan (y / x) < pi / 2" by (rule arctan_ubound)
  have neg: "x < 0 \<Longrightarrow> 0 \<le> y \<Longrightarrow> arctan (y / x) \<le> 0"
    by (simp add: divide_nonneg_neg)
  have pos: "x < 0 \<Longrightarrow> y < 0 \<Longrightarrow> 0 < arctan (y / x)"
    by (simp add: divide_neg_neg)
  show ?thesis
    unfolding atan2_def using lo hi neg pos pi_gt_zero by (auto simp: not_less)
qed

lemma rad2deg_atan2_range: "- 180 \<le> rad2deg (atan2 y x) \<and> rad2deg (atan2 y x) \<le> 180"
proof -
  have r: "- pi < atan2 y x" "atan2 y x \<le> pi" using atan2_range by blast+
  have "rad2deg (atan2 y x) \<le> 180"
    unfolding rad2deg_def using r(2) by (simp add: pos_divide_le_eq)
  moreover have "- 180 \<le> rad2deg (atan2 y x)"
    unfolding rad2deg_def using r(1) by (simp add: pos_le_divide_eq)
  ultimately show ?thesis by blast
qed

lemma ecefToGeodetic_lon: "fst (snd (ecefToGeodetic X Y Z a f)) = rad2deg (atan2 Y X)"
  by (simp only: ecefToGeodetic_def Let_def fst_conv snd_conv)

text \<open>
  C9. The longitude returned by \<open>ecefToGeodetic\<close>, and with it the longitude returned
  by \<open>wgs84ToPSD93\<close> and by \<open>psd93ToWGS84\<close>, lies between -180 and 180 degrees for
  every input, whatever the longitude that went in: it is \<open>atan2 Y X\<close> in degrees.
\<close>

theorem longitude_in_range:
  "- 180 \<le> fst (snd (ecefToGeodetic X Y Z a f)) \<and> fst (snd (ecefToGeodetic X Y Z a f)) \<le> 180
   \<and> - 180 \<le> fst (snd (wgs84ToPSD93 lat lon h)) \<and> fst (snd (wgs84ToPSD93 lat lon h)) \<le> 180
   \<and> - 180 \<le> fst (snd (psd93ToWGS84 lat lon h)) \<and> fst (snd (psd93ToWGS84 lat lon h)) \<le> 180"
proof -
  have w: "fst (snd (wgs84ToPSD93 lat lon h)) =
      rad2deg (atan2 (fst (snd (helmertForward (geodeticToECEF lat lon h 6378137.0 (1 / 298.257223563)))))
                     (fst (helmertForward (geodeticToECEF lat lon h 6378137.0 (1 / 298.257223563)))))"
    by (simp add: wgs84ToPSD93_def Let_def ecefToGeodetic_lon split: prod.split)
  have p: "fst (snd (psd93ToWGS84 lat lon h)) =
      rad2deg (atan2 (fst (snd (helmertInverse (geodeticToECEF lat lon h 6378249.145 (1 / 293.465)))))
                     (fst (helmertInverse (geodeticToECEF lat lon h 6378249.145 (1 / 293.465)))))"
    by (simp add: psd93ToWGS84_def Let_def ecefToGeodetic_lon split: prod.split)
  show ?thesis
    unfolding ecefToGeodetic_lon w p using rad2deg_atan2_range by blast
qed

subsection \<open>The central meridian\<close>

lemma easting_at_zero:
  fixes k :: real
  shows "FE + k * (c * (l - l) + (c3 * (c * (l - l)) ^ 3) / 6 + (c5 * (c * (l - l)) ^ 5) / 120) = FE"
  by simp

text \<open>
  C10. On the central meridian of the zone, longitude \<open>6 * zone - 183\<close>, the series
  variable \<open>A\<close> is zero and the easting is exactly the false easting 500000, at every
  latitude; and the zone field of the result is the zone passed in, on every call.
\<close>

theorem easting_on_central_meridian:
  "utm_easting (psd93ToUTM lat (of_int (6 * zone - 183)) zone) = 500000
   \<and> utm_zone (psd93ToUTM lat lon zone) = zone"
proof
  show "utm_easting (psd93ToUTM lat (of_int (6 * zone - 183)) zone) = 500000"
    by (simp only: psd93ToUTM_def Let_def utm.simps) (rule easting_at_zero)
  show "utm_zone (psd93ToUTM lat lon zone) = zone"
    by (simp only: psd93ToUTM_def Let_def utm.simps)
qed

lemma easting_odd:
  fixes u :: real
  shows "(FE + k * (c * u + (c3 * (c * u) ^ 3) / 6 + (c5 * (c * u) ^ 5) / 120)) - FE
    = - ((FE + k * (c * - u + (c3 * (c * - u) ^ 3) / 6 + (c5 * (c * - u) ^ 5) / 120)) - FE)"
  by (simp add: algebra_simps)

lemma northing_even:
  fixes u :: real
  shows "k * (M + Nt * ((c * u * (c * u)) / 2 + (c4 * (c * u) ^ 4) / 24 + (c6 * (c * u) ^ 6) / 720))
    = k * (M + Nt * ((c * - u * (c * - u)) / 2 + (c4 * (c * - u) ^ 4) / 24 + (c6 * (c * - u) ^ 6) / 720))"
  by simp

lemma lon_odd:
  fixes x :: real
  shows "rad2deg (deg2rad c + (x / w - (c3 * (x / w) ^ 3) / 6 + (c5 * (x / w) ^ 5) / 120) / cp) - c
    = - (rad2deg (deg2rad c + (- x / w - (c3 * (- x / w) ^ 3) / 6 + (c5 * (- x / w) ^ 5) / 120) / cp) - c)"
proof -
  define u where "u = (x / w - (c3 * (x / w) ^ 3) / 6 + (c5 * (x / w) ^ 5) / 120) / cp"
  have "- x / w - (c3 * (- x / w) ^ 3) / 6 + (c5 * (- x / w) ^ 5) / 120
      = - (x / w - (c3 * (x / w) ^ 3) / 6 + (c5 * (x / w) ^ 5) / 120)"
    by simp
  then have neg: "(- x / w - (c3 * (- x / w) ^ 3) / 6 + (c5 * (- x / w) ^ 5) / 120) / cp = - u"
    unfolding u_def by (simp only: minus_divide_left)
  show ?thesis
    unfolding neg u_def [symmetric]
    by (simp only: rad2deg_add rad2deg_deg2rad rad2deg_minus)
qed

lemma lon_at_zero:
  fixes w :: real
  shows "rad2deg (deg2rad c + ((a - a) / w - (c3 * ((a - a) / w) ^ 3) / 6
           + (c5 * ((a - a) / w) ^ 5) / 120) / cp) = c"
  by (simp add: rad2deg_deg2rad)

lemma lat_even:
  fixes x :: real
  shows "rad2deg (p - g * ((x / w * (x / w)) / 2 - (c4 * (x / w) ^ 4) / 24 + (c6 * (x / w) ^ 6) / 720))
    = rad2deg (p - g * ((- x / w * (- x / w)) / 2 - (c4 * (- x / w) ^ 4) / 24 + (c6 * (- x / w) ^ 6) / 720))"
  by simp

lemma three_halves: "(1.5::real) = 3 / 2"
  by simp

lemma utmToPSD93_lat_snyder:
  "geo_lat (utmToPSD93 e n zone)
     = rad2deg (snyder_phi 6378249.145 (1 / 293.465) 0.9996 (e - 500000) n)"
  by (simp only: utmToPSD93_def snyder_phi_def snyder_footpoint_def Let_def geo.simps
        power2_eq_square power3_eq_cube mult.assoc times_divide_eq_right three_halves)

lemma utmToPSD93_lon_snyder:
  "geo_lon (utmToPSD93 e n zone)
     = rad2deg (snyder_lam 6378249.145 (1 / 293.465) 0.9996
         (deg2rad (of_int (6 * zone - 183))) (e - 500000) n)"
  by (simp only: utmToPSD93_def snyder_lam_def snyder_footpoint_def Let_def geo.simps
        power2_eq_square power3_eq_cube mult.assoc times_divide_eq_right)


lemma rad2deg_less: "x < y \<Longrightarrow> rad2deg x < rad2deg y"
  by (simp add: rad2deg_def divide_strict_right_mono)

lemma easting_east_of_meridian:
  "500000 < utm_easting (psd93ToUTM 0 (of_int (6 * zone - 183) + 1) zone)"
proof -
  define e2 :: real where "e2 = 2 * (1 / 293.465) - 1 / 293.465 * (1 / 293.465)"
  define A where "A = cos (deg2rad 0)
    * (deg2rad (of_int (6 * zone - 183) + 1) - deg2rad (of_int (6 * zone - 183)))"
  define N where "N = 6378249.145 / sqrt (1 - e2 * sin (deg2rad 0) * sin (deg2rad 0))"
  define T where "T = tan (deg2rad 0) * tan (deg2rad 0)"
  define C where "C = e2 / (1 - e2) * cos (deg2rad 0) * cos (deg2rad 0)"
  have eq: "utm_easting (psd93ToUTM 0 (of_int (6 * zone - 183) + 1) zone)
      = 500000 + 0.9996 * N * (A + ((1 - T + C) * A ^ 3) / 6
          + ((5 - 18 * T + T * T + 72 * C - (58 * e2) / (1 - e2)) * A ^ 5) / 120)"
    unfolding A_def N_def T_def C_def e2_def
    by (simp only: psd93ToUTM_def Let_def utm.simps)
  have A: "0 < A" unfolding A_def deg2rad_add_sub by (simp add: deg2rad_def)
  have N: "0 < N" unfolding N_def by (simp add: deg2rad_0)
  have T: "T = 0" unfolding T_def by (simp add: deg2rad_0)
  have C: "C = e2 / (1 - e2)" unfolding C_def by (simp add: deg2rad_0)
  have c3: "0 \<le> 1 - T + C" unfolding T C e2_def by simp
  have c5: "0 \<le> 5 - 18 * T + T * T + 72 * C - (58 * e2) / (1 - e2)"
    unfolding T C e2_def by simp
  have p3: "0 \<le> ((1 - T + C) * A ^ 3) / 6" using c3 A by simp
  have p5: "0 \<le> ((5 - 18 * T + T * T + 72 * C - (58 * e2) / (1 - e2)) * A ^ 5) / 120"
    using c5 A by simp
  have "0 < A + ((1 - T + C) * A ^ 3) / 6
      + ((5 - 18 * T + T * T + 72 * C - (58 * e2) / (1 - e2)) * A ^ 5) / 120"
    using A p3 p5 by linarith
  then have "0 < 0.9996 * N * (A + ((1 - T + C) * A ^ 3) / 6
      + ((5 - 18 * T + T * T + 72 * C - (58 * e2) / (1 - e2)) * A ^ 5) / 120)"
    using N by simp
  then show ?thesis unfolding eq by simp
qed

lemma snyder_footpoint_zero: "snyder_footpoint a e2 (0 / k0) = 0"
  by (simp add: snyder_footpoint_def)

lemma longitude_east_of_meridian:
  "of_int (6 * zone - 183) < geo_lon (utmToPSD93 600000 0 zone)"
proof -
  have "deg2rad (of_int (6 * zone - 183))
      < snyder_lam 6378249.145 (1 / 293.465) 0.9996 (deg2rad (of_int (6 * zone - 183)))
          (600000 - 500000) 0"
    unfolding snyder_lam_def Let_def snyder_footpoint_zero by (simp add: power_divide)
  then have "rad2deg (deg2rad (of_int (6 * zone - 183)))
      < geo_lon (utmToPSD93 600000 0 zone)"
    unfolding utmToPSD93_lon_snyder by (rule rad2deg_less)
  then show ?thesis unfolding rad2deg_deg2rad .
qed

text \<open>
  C5. Both projections use the meridian \<open>6 * zone - 183\<close> degrees as their central
  meridian, for every integer zone. \<open>psd93ToUTM\<close> depends on the longitude and the
  zone only through the offset of the longitude from that meridian; the easting offset
  from 500000 is antisymmetric and the northing symmetric in the offset.
  \<open>utmToPSD93\<close> returns a longitude whose offset from that meridian does not depend on
  the zone, maps the easting 500000 to exactly that meridian and eastings on either
  side of 500000 to longitudes symmetric about it, at equal latitude. Both functions
  are Snyder's series taken at the central meridian \<open>deg2rad (6 * zone - 183)\<close>, and
  the dependence is a real one: on the equator, one degree east of the meridian has an
  easting above 500000, and the easting 600000 has a longitude east of the meridian.
\<close>

theorem central_meridian_of_zone:
  "utm_easting (psd93ToUTM lat (of_int (6 * zone - 183) + d) zone)
     = utm_easting (psd93ToUTM lat (of_int (6 * zone' - 183) + d) zone')
   \<and> utm_northing (psd93ToUTM lat (of_int (6 * zone - 183) + d) zone)
     = utm_northing (psd93ToUTM lat (of_int (6 * zone' - 183) + d) zone')
   \<and> utm_easting (psd93ToUTM lat (of_int (6 * zone - 183) + d) zone) - 500000
     = - (utm_easting (psd93ToUTM lat (of_int (6 * zone - 183) - d) zone) - 500000)
   \<and> utm_northing (psd93ToUTM lat (of_int (6 * zone - 183) + d) zone)
     = utm_northing (psd93ToUTM lat (of_int (6 * zone - 183) - d) zone)
   \<and> geo_lon (utmToPSD93 e n zone) - of_int (6 * zone - 183)
     = geo_lon (utmToPSD93 e n zone') - of_int (6 * zone' - 183)
   \<and> geo_lat (utmToPSD93 e n zone) = geo_lat (utmToPSD93 e n zone')
   \<and> geo_lon (utmToPSD93 500000 n zone) = of_int (6 * zone - 183)
   \<and> geo_lon (utmToPSD93 (500000 + x) n zone) - of_int (6 * zone - 183)
     = - (geo_lon (utmToPSD93 (500000 - x) n zone) - of_int (6 * zone - 183))
   \<and> geo_lat (utmToPSD93 (500000 + x) n zone) = geo_lat (utmToPSD93 (500000 - x) n zone)
   \<and> utm_easting (psd93ToUTM lat lon zone) =
     500000 + snyder_x 6378249.145 (1 / 293.465) 0.9996
                (deg2rad (of_int (6 * zone - 183))) (deg2rad lat) (deg2rad lon)
   \<and> utm_northing (psd93ToUTM lat lon zone) =
     snyder_y 6378249.145 (1 / 293.465) 0.9996
                (deg2rad (of_int (6 * zone - 183))) (deg2rad lat) (deg2rad lon)
   \<and> geo_lat (utmToPSD93 e n zone) =
     rad2deg (snyder_phi 6378249.145 (1 / 293.465) 0.9996 (e - 500000) n)
   \<and> geo_lon (utmToPSD93 e n zone) =
     rad2deg (snyder_lam 6378249.145 (1 / 293.465) 0.9996
                (deg2rad (of_int (6 * zone - 183))) (e - 500000) n)
   \<and> 500000 < utm_easting (psd93ToUTM 0 (of_int (6 * zone - 183) + 1) zone)
   \<and> of_int (6 * zone - 183) < geo_lon (utmToPSD93 600000 0 zone)"
proof (intro conjI)
  show "utm_easting (psd93ToUTM lat (of_int (6 * zone - 183) + d) zone)
     = utm_easting (psd93ToUTM lat (of_int (6 * zone' - 183) + d) zone')"
    by (simp only: psd93ToUTM_def Let_def utm.simps deg2rad_add_sub)
  show "utm_northing (psd93ToUTM lat (of_int (6 * zone - 183) + d) zone)
     = utm_northing (psd93ToUTM lat (of_int (6 * zone' - 183) + d) zone')"
    by (simp only: psd93ToUTM_def Let_def utm.simps deg2rad_add_sub)
  show "utm_easting (psd93ToUTM lat (of_int (6 * zone - 183) + d) zone) - 500000
     = - (utm_easting (psd93ToUTM lat (of_int (6 * zone - 183) - d) zone) - 500000)"
    by (simp only: psd93ToUTM_def Let_def utm.simps deg2rad_add_sub deg2rad_sub_sub)
       (rule easting_odd)
  show "utm_northing (psd93ToUTM lat (of_int (6 * zone - 183) + d) zone)
     = utm_northing (psd93ToUTM lat (of_int (6 * zone - 183) - d) zone)"
    by (simp only: psd93ToUTM_def Let_def utm.simps deg2rad_add_sub deg2rad_sub_sub)
       (rule northing_even)
  show "geo_lon (utmToPSD93 e n zone) - of_int (6 * zone - 183)
     = geo_lon (utmToPSD93 e n zone') - of_int (6 * zone' - 183)"
    by (simp only: utmToPSD93_def Let_def geo.simps rad2deg_add rad2deg_deg2rad
          add_diff_cancel_left')
  show "geo_lat (utmToPSD93 e n zone) = geo_lat (utmToPSD93 e n zone')"
    by (simp only: utmToPSD93_def Let_def geo.simps)
  show "geo_lon (utmToPSD93 500000 n zone) = of_int (6 * zone - 183)"
    by (simp only: utmToPSD93_def Let_def geo.simps) (rule lon_at_zero)
  show "geo_lon (utmToPSD93 (500000 + x) n zone) - of_int (6 * zone - 183)
     = - (geo_lon (utmToPSD93 (500000 - x) n zone) - of_int (6 * zone - 183))"
    by (simp only: utmToPSD93_def Let_def geo.simps add_diff_cancel_left' diff_diff_self)
       (rule lon_odd)
  show "geo_lat (utmToPSD93 (500000 + x) n zone) = geo_lat (utmToPSD93 (500000 - x) n zone)"
    by (simp only: utmToPSD93_def Let_def geo.simps add_diff_cancel_left' diff_diff_self)
       (rule lat_even)
  show "utm_easting (psd93ToUTM lat lon zone) =
     500000 + snyder_x 6378249.145 (1 / 293.465) 0.9996
                (deg2rad (of_int (6 * zone - 183))) (deg2rad lat) (deg2rad lon)"
    by (simp only: psd93ToUTM_def snyder_x_def Let_def utm.simps
          power2_eq_square power3_eq_cube mult.assoc times_divide_eq_right)
  show "utm_northing (psd93ToUTM lat lon zone) =
     snyder_y 6378249.145 (1 / 293.465) 0.9996
                (deg2rad (of_int (6 * zone - 183))) (deg2rad lat) (deg2rad lon)"
    by (simp only: psd93ToUTM_def snyder_y_def snyder_M_def Let_def utm.simps
          power2_eq_square power3_eq_cube mult.assoc times_divide_eq_right)
  show "geo_lat (utmToPSD93 e n zone) =
     rad2deg (snyder_phi 6378249.145 (1 / 293.465) 0.9996 (e - 500000) n)"
    by (rule utmToPSD93_lat_snyder)
  show "geo_lon (utmToPSD93 e n zone) =
     rad2deg (snyder_lam 6378249.145 (1 / 293.465) 0.9996
                (deg2rad (of_int (6 * zone - 183))) (e - 500000) n)"
    by (rule utmToPSD93_lon_snyder)
  show "500000 < utm_easting (psd93ToUTM 0 (of_int (6 * zone - 183) + 1) zone)"
    by (rule easting_east_of_meridian)
  show "of_int (6 * zone - 183) < geo_lon (utmToPSD93 600000 0 zone)"
    by (rule longitude_east_of_meridian)
qed

subsection \<open>The forward projection against Snyder's series\<close>

lemma northing_zero_shape:
  fixes k :: real
  shows "k * (a * (c1 * 0 - c2 * sin (2 * 0) + c3 * sin (4 * 0) - c4 * sin (6 * 0)) + N * tan 0 * X) = 0"
  by simp

lemma sin_mult_minus: "sin (c * - x) = - sin (c * (x::real))"
  by simp

lemma mult_minus_minus3: "a * - b * - c = a * b * (c::real)"
  by simp

lemma northing_odd_shape:
  fixes k :: real
  shows "k * (a * (c1 * - p - c2 * - s2 + c3 * - s4 - c4 * - s6) + N * - t * S)
    = - (k * (a * (c1 * p - c2 * s2 + c3 * s4 - c4 * s6) + N * t * S))"
  by (simp add: algebra_simps)

text \<open>
  C6. \<open>psd93ToUTM\<close> is the transverse Mercator series on the Clarke 1880 ellipsoid
  (\<open>a = 6378249.145\<close>, \<open>f = 1 / 293.465\<close>) with scale factor 0.9996: the easting is
  500000 plus the series \<open>snyder_x\<close>, and the northing is the series \<open>snyder_y\<close>,
  that is \<open>k0\<close> times the meridional arc plus the correction series, with nothing
  added. In particular a point on the equator has northing 0, and the mirror image of a
  point in the equator has the opposite northing, not one offset by 10000000.
\<close>

theorem psd93ToUTM_snyder_no_false_northing:
  "utm_easting (psd93ToUTM lat lon zone) =
     500000 + snyder_x 6378249.145 (1 / 293.465) 0.9996
                (deg2rad (of_int (6 * zone - 183))) (deg2rad lat) (deg2rad lon)
   \<and> utm_northing (psd93ToUTM lat lon zone) =
     snyder_y 6378249.145 (1 / 293.465) 0.9996
                (deg2rad (of_int (6 * zone - 183))) (deg2rad lat) (deg2rad lon)
   \<and> utm_northing (psd93ToUTM 0 lon zone) = 0
   \<and> utm_northing (psd93ToUTM (- lat) lon zone) = - utm_northing (psd93ToUTM lat lon zone)"
proof (intro conjI)
  show "utm_easting (psd93ToUTM lat lon zone) =
     500000 + snyder_x 6378249.145 (1 / 293.465) 0.9996
                (deg2rad (of_int (6 * zone - 183))) (deg2rad lat) (deg2rad lon)"
    by (simp only: psd93ToUTM_def snyder_x_def Let_def utm.simps
          power2_eq_square power3_eq_cube mult.assoc times_divide_eq_right)
  show "utm_northing (psd93ToUTM lat lon zone) =
     snyder_y 6378249.145 (1 / 293.465) 0.9996
                (deg2rad (of_int (6 * zone - 183))) (deg2rad lat) (deg2rad lon)"
    by (simp only: psd93ToUTM_def snyder_y_def snyder_M_def Let_def utm.simps
          power2_eq_square power3_eq_cube mult.assoc times_divide_eq_right)
  show "utm_northing (psd93ToUTM 0 lon zone) = 0"
    by (simp only: psd93ToUTM_def Let_def utm.simps deg2rad_0) (rule northing_zero_shape)
  show "utm_northing (psd93ToUTM (- lat) lon zone) = - utm_northing (psd93ToUTM lat lon zone)"
    by (simp only: psd93ToUTM_def Let_def utm.simps deg2rad_minus sin_minus cos_minus tan_minus
          sin_mult_minus mult_minus_minus3 minus_mult_minus)
       (rule northing_odd_shape)
qed

section \<open>Numeric bounds\<close>

subsection \<open>Sine, cosine and pi\<close>

lemma sum_below_13:
  fixes f :: "nat \<Rightarrow> real"
  shows "(\<Sum>m<13. f m) = f 0 + f 1 + f 2 + f 3 + f 4 + f 5 + f 6 + f 7 + f 8 + f 9 + f 10 + f 11 + f 12"
  by (simp add: numeral_eq_Suc)

lemma sum_below_14:
  fixes f :: "nat \<Rightarrow> real"
  shows "(\<Sum>m<14. f m) = f 0 + f 1 + f 2 + f 3 + f 4 + f 5 + f 6 + f 7 + f 8 + f 9 + f 10 + f 11 + f 12 + f 13"
  by (simp add: numeral_eq_Suc)

lemma sin_sum13: "(\<Sum>m<13. sin_coeff m * x ^ m) = sinP x"
  unfolding sinP_def sum_below_13
  by (simp add: sin_coeff_def fact_numeral)

lemma cos_sum14: "(\<Sum>m<14. cos_coeff m * x ^ m) = cosP x"
  unfolding cosP_def sum_below_14
  by (simp add: cos_coeff_def fact_numeral)

lemma sin_taylor: "\<bar>sin x - sinP x\<bar> \<le> \<bar>x\<bar> ^ 13 / 6227020800"
  using Maclaurin_sin_bound [of x 13] unfolding sin_sum13
  by (simp add: fact_numeral)

lemma cos_taylor: "\<bar>cos x - cosP x\<bar> \<le> \<bar>x\<bar> ^ 14 / 87178291200"
proof -
  obtain t where eq: "cos x = (\<Sum>m<14. cos_coeff m * x ^ m) + (cos (t + 1/2 * real (14::nat) * pi) / fact 14) * x ^ 14"
    using Maclaurin_cos_expansion [of x 14] by blast
  define c where "c = cos (t + 1/2 * real (14::nat) * pi)"
  have c1: "\<bar>c\<bar> \<le> 1" unfolding c_def by simp
  have h: "cos x - cosP x = c * (x ^ 14 / 87178291200)"
    using eq unfolding cos_sum14 c_def [symmetric] by (simp add: fact_numeral)
  have "\<bar>cos x - cosP x\<bar> = \<bar>c * (x ^ 14 / 87178291200)\<bar>"
    by (simp only: h)
  also have "\<dots> = \<bar>c\<bar> * (\<bar>x\<bar> ^ 14 / 87178291200)"
    by (simp add: abs_mult power_abs)
  also have "\<dots> \<le> 1 * (\<bar>x\<bar> ^ 14 / 87178291200)"
    by (rule mult_right_mono [OF c1]) simp
  finally show ?thesis by simp
qed

lemma sin_lower: "sinP x - \<bar>x\<bar> ^ 13 / 6227020800 \<le> sin x"
  using sin_taylor [of x] by linarith

lemma sin_upper: "sin x \<le> sinP x + \<bar>x\<bar> ^ 13 / 6227020800"
  using sin_taylor [of x] by linarith

lemma cos_lower: "cosP x - \<bar>x\<bar> ^ 14 / 87178291200 \<le> cos x"
  using cos_taylor [of x] by linarith

lemma cos_upper: "cos x \<le> cosP x + \<bar>x\<bar> ^ 14 / 87178291200"
  using cos_taylor [of x] by linarith

lemma pi_lower: "3.1415926 < pi"
proof -
  define l :: real where "l = 3.1415926 / 6"
  have "sin l \<le> sinP l + \<bar>l\<bar> ^ 13 / 6227020800" by (rule sin_upper)
  also have "\<dots> < 1 / 2" unfolding l_def sinP_def by (simp add: power_divide)
  finally have lt: "sin l < sin (pi / 6)" by (simp add: sin_30)
  have "l < pi / 6"
  proof (rule ccontr)
    assume "\<not> l < pi / 6"
    then have le: "pi / 6 \<le> l" by simp
    have "l \<le> pi / 2" using pi_ge_two unfolding l_def by simp
    then have "sin (pi / 6) \<le> sin l"
      using le by (intro sin_monotone_2pi_le) (use pi_ge_zero in linarith)+
    then show False using lt by simp
  qed
  then show ?thesis unfolding l_def by simp
qed

lemma pi_upper: "pi < 3.1415927"
proof -
  define u :: real where "u = 3.1415927 / 6"
  have "1 / 2 < sinP u - \<bar>u\<bar> ^ 13 / 6227020800" unfolding u_def sinP_def by (simp add: power_divide)
  also have "\<dots> \<le> sin u" by (rule sin_lower)
  finally have lt: "sin (pi / 6) < sin u" by (simp add: sin_30)
  have "pi / 6 < u"
  proof (rule ccontr)
    assume "\<not> pi / 6 < u"
    then have le: "u \<le> pi / 6" by simp
    have "- (pi / 2) \<le> 0" using pi_ge_zero by simp
    also have "0 \<le> u" unfolding u_def by simp
    finally have "- (pi / 2) \<le> u" .
    then have "sin u \<le> sin (pi / 6)"
      using le by (intro sin_monotone_2pi_le) (use pi_ge_zero in linarith)+
    then show False using lt by simp
  qed
  then show ?thesis unfolding u_def by simp
qed


lemma pi_gt_three: "3 < pi"
  using pi_lower by simp

lemma three_halves_less_pi_half: "3 / 2 < pi / 2"
  using pi_gt_three by simp

lemma cos_pos_small: "0 \<le> x \<Longrightarrow> x \<le> 3 / 2 \<Longrightarrow> 0 < cos (x::real)"
  using three_halves_less_pi_half by (intro cos_gt_zero_pi) linarith+

subsection \<open>Interval arithmetic\<close>

text \<open>
  Each lemma turns enclosures of the arguments of an operation into an enclosure of its
  result; the side conditions are comparisons of numerals. Sine and cosine are enclosed
  through a chain of products that stands for the powers of the argument, so that every
  comparison involves short numerals only.
\<close>

lemma iv_mul:
  fixes x y :: real
  assumes "a \<le> x \<and> x \<le> b" "c \<le> y \<and> y \<le> d" "0 \<le> a" "0 \<le> c" "L \<le> a * c" "b * d \<le> U"
  shows "L \<le> x * y \<and> x * y \<le> U"
proof
  have "a * c \<le> x * y" using assms by (intro mult_mono) linarith+
  then show "L \<le> x * y" using assms by linarith
  have "x * y \<le> b * d" using assms by (intro mult_mono) linarith+
  then show "x * y \<le> U" using assms by linarith
qed

lemma iv_div:
  fixes x y :: real
  assumes "a \<le> x \<and> x \<le> b" "c \<le> y \<and> y \<le> d" "0 \<le> a" "0 < c" "L \<le> a / d" "b / c \<le> U"
  shows "L \<le> x / y \<and> x / y \<le> U"
proof
  have "a / d \<le> x / y" using assms by (intro frac_le) linarith+
  then show "L \<le> x / y" using assms by linarith
  have "x / y \<le> b / c" using assms by (intro frac_le) linarith+
  then show "x / y \<le> U" using assms by linarith
qed

lemma iv_sqrt:
  assumes "a \<le> x \<and> x \<le> b" "0 \<le> U" "L\<^sup>2 \<le> a" "b \<le> U\<^sup>2"
  shows "L \<le> sqrt x \<and> sqrt x \<le> U"
proof
  have "L\<^sup>2 \<le> x" using assms by linarith
  then show "L \<le> sqrt x" by (rule real_le_rsqrt)
  have "x \<le> U\<^sup>2" using assms by linarith
  then show "sqrt x \<le> U" using assms(2) by (intro real_le_lsqrt)
qed

lemma iv_pow:
  fixes x :: real
  assumes "a \<le> x \<and> x \<le> b" "0 \<le> a" "L \<le> a ^ n" "b ^ n \<le> U"
  shows "L \<le> x ^ n \<and> x ^ n \<le> U"
proof
  have "a ^ n \<le> x ^ n" using assms by (intro power_mono) linarith+
  then show "L \<le> x ^ n" using assms by linarith
  have "x ^ n \<le> b ^ n" using assms by (intro power_mono) linarith+
  then show "x ^ n \<le> U" using assms by linarith
qed

lemma sin_chain:
  fixes x :: real
  assumes "0 \<le> x" "x2 = x * x" "x3 = x2 * x" "x5 = x3 * x2" "x7 = x5 * x2" "x9 = x7 * x2"
    "x11 = x9 * x2" "x13 = x11 * x2"
  shows "x - x3 / 6 + x5 / 120 - x7 / 5040 + x9 / 362880 - x11 / 39916800 - x13 / 6227020800 \<le> sin x
    \<and> sin x \<le> x - x3 / 6 + x5 / 120 - x7 / 5040 + x9 / 362880 - x11 / 39916800 + x13 / 6227020800"
proof -
  have p: "x3 = x ^ 3" "x5 = x ^ 5" "x7 = x ^ 7" "x9 = x ^ 9" "x11 = x ^ 11" "x13 = x ^ 13"
    unfolding assms(2-) by (simp_all add: power_numeral_reduce)
  have a: "\<bar>x\<bar> ^ 13 = x13" using assms(1) p by simp
  have s: "sinP x = x - x3 / 6 + x5 / 120 - x7 / 5040 + x9 / 362880 - x11 / 39916800"
    unfolding sinP_def p ..
  show ?thesis using sin_lower [of x] sin_upper [of x] unfolding a s by simp
qed

lemma cos_chain:
  fixes x :: real
  assumes "0 \<le> x" "x2 = x * x" "x4 = x2 * x2" "x6 = x4 * x2" "x8 = x6 * x2" "x10 = x8 * x2"
    "x12 = x10 * x2" "x14 = x12 * x2"
  shows "1 - x2 / 2 + x4 / 24 - x6 / 720 + x8 / 40320 - x10 / 3628800 + x12 / 479001600
           - x14 / 87178291200 \<le> cos x
    \<and> cos x \<le> 1 - x2 / 2 + x4 / 24 - x6 / 720 + x8 / 40320 - x10 / 3628800 + x12 / 479001600
           + x14 / 87178291200"
proof -
  have p: "x2 = x ^ 2" "x4 = x ^ 4" "x6 = x ^ 6" "x8 = x ^ 8" "x10 = x ^ 10" "x12 = x ^ 12"
      "x14 = x ^ 14"
    unfolding assms(2-) by (simp_all add: power_numeral_reduce)
  have a: "\<bar>x\<bar> ^ 14 = x14" using assms(1) p by simp
  have s: "cosP x = 1 - x2 / 2 + x4 / 24 - x6 / 720 + x8 / 40320 - x10 / 3628800 + x12 / 479001600"
    unfolding cosP_def p ..
  show ?thesis using cos_lower [of x] cos_upper [of x] unfolding a s by simp
qed

lemma arctan_lo2:
  assumes "ql \<le> q \<and> q \<le> qh" "0 \<le> ql" "0 \<le> l" "l \<le> 3 / 2"
    "s1 \<le> sin l \<and> sin l \<le> s2" "c1 \<le> cos l \<and> cos l \<le> c2" "s2 \<le> ql * c1"
  shows "l \<le> arctan q"
proof -
  have c: "0 < cos l" using assms by (intro cos_pos_small) linarith+
  have "ql * c1 \<le> ql * cos l" using assms by (intro mult_left_mono) linarith+
  then have "sin l \<le> ql * cos l" using assms by linarith
  then have "tan l \<le> ql"
    unfolding tan_def using c by (simp add: pos_divide_le_eq)
  then have "arctan (tan l) \<le> arctan q"
    using assms by (simp add: arctan_le_iff)
  moreover have "arctan (tan l) = l"
    using assms three_halves_less_pi_half by (intro arctan_tan) linarith+
  ultimately show ?thesis by simp
qed

lemma arctan_hi2:
  assumes "ql \<le> q \<and> q \<le> qh" "0 \<le> qh" "0 \<le> u" "u \<le> 3 / 2"
    "s1 \<le> sin u \<and> sin u \<le> s2" "c1 \<le> cos u \<and> cos u \<le> c2" "qh * c2 \<le> s1"
  shows "arctan q \<le> u"
proof -
  have c: "0 < cos u" using assms by (intro cos_pos_small) linarith+
  have "qh * cos u \<le> qh * c2" using assms by (intro mult_left_mono) linarith+
  then have "qh * cos u \<le> sin u" using assms by linarith
  then have "qh \<le> tan u"
    unfolding tan_def using c by (simp add: pos_le_divide_eq)
  then have "arctan q \<le> arctan (tan u)"
    using assms by (simp add: arctan_le_iff)
  moreover have "arctan (tan u) = u"
    using assms three_halves_less_pi_half by (intro arctan_tan) linarith+
  ultimately show ?thesis by simp
qed

lemma pi_bounds: "31415926 / 10000000 \<le> pi \<and> pi \<le> 31415927 / 10000000"
  using pi_lower pi_upper by simp

lemma atan2_pos: "0 < x \<Longrightarrow> atan2 y x = arctan (y / x)"
  by (simp add: atan2_def)

section \<open>The Helmert transformation and its inverse by negation\<close>

lemma helmert_linear_roundtrip:
  fixes X :: real
  assumes "Xt = X + tX + s * X - r3 * Y + r2 * Z"
    and "Yt = Y + tY + r3 * X + s * Y - r1 * Z"
    and "Zt = Z + tZ - r2 * X + r1 * Y + s * Z"
  shows "Xt + - tX + - s * Xt - - r3 * Yt + - r2 * Zt
           = X - (s * (Xt - X) - r3 * (Yt - Y) + r2 * (Zt - Z))"
    and "Yt + - tY + - r3 * Xt + - s * Yt - - r1 * Zt
           = Y - (r3 * (Xt - X) + s * (Yt - Y) - r1 * (Zt - Z))"
    and "Zt + - tZ - - r2 * Xt + - r1 * Yt + - s * Zt
           = Z - (- r2 * (Xt - X) + r1 * (Yt - Y) + s * (Zt - Z))"
  using assms by (simp_all add: algebra_simps)

lemma helmertForward_eq:
  "helmertForward (X, Y, Z) =
     (X + - 180.624 + 16.71006 * (1 / 1000000) * X - arcsec2rad 8.336 * Y + arcsec2rad (- 1.898) * Z,
      Y + - 225.516 + arcsec2rad 8.336 * X + 16.71006 * (1 / 1000000) * Y - arcsec2rad (- 0.81) * Z,
      Z + 173.919 - arcsec2rad (- 1.898) * X + arcsec2rad (- 0.81) * Y + 16.71006 * (1 / 1000000) * Z)"
  by (simp only: helmertForward_def helmertParams_def Let_def prod.case helmert.simps)

lemma helmertInverse_eq:
  "helmertInverse (Xt, Yt, Zt) =
     (Xt + - (- 180.624) + - 16.71006 * (1 / 1000000) * Xt - - arcsec2rad 8.336 * Yt + - arcsec2rad (- 1.898) * Zt,
      Yt + - (- 225.516) + - arcsec2rad 8.336 * Xt + - 16.71006 * (1 / 1000000) * Yt - - arcsec2rad (- 0.81) * Zt,
      Zt + - 173.919 - - arcsec2rad (- 1.898) * Xt + - arcsec2rad (- 0.81) * Yt + - 16.71006 * (1 / 1000000) * Zt)"
  by (simp only: helmertInverse_def helmertParams_def Let_def prod.case helmert.simps)


lemma abs_prod_le:
  fixes a b :: real
  shows "\<bar>a\<bar> \<le> A \<Longrightarrow> \<bar>b\<bar> \<le> B \<Longrightarrow> \<bar>a * b\<bar> \<le> A * B"
  unfolding abs_mult by (rule mult_mono) (use abs_ge_zero [of a] in linarith, simp_all)

lemma arcsec2rad_bounds:
  "\<bar>arcsec2rad (- 0.81)\<bar> \<le> 4 / 1000000"
  "\<bar>arcsec2rad (- 1.898)\<bar> \<le> 93 / 10000000"
  "\<bar>arcsec2rad 8.336\<bar> \<le> 405 / 10000000"
  using pi_lower pi_upper by (simp_all add: arcsec2rad_def abs_if)

lemma helmert_residual_small:
  fixes X :: real
  assumes X: "\<bar>X\<bar> \<le> 6400000" and Y: "\<bar>Y\<bar> \<le> 6400000" and Z: "\<bar>Z\<bar> \<le> 6400000"
    and r1: "\<bar>r1\<bar> \<le> 4 / 1000000" and r2: "\<bar>r2\<bar> \<le> 93 / 10000000"
    and r3: "\<bar>r3\<bar> \<le> 405 / 10000000"
    and sa: "\<bar>s\<bar> \<le> 1671006 / 100000000000"
    and t: "\<bar>tX\<bar> \<le> 181" "\<bar>tY\<bar> \<le> 226" "\<bar>tZ\<bar> \<le> 174"
    and U: "U = tX + s * X - r3 * Y + r2 * Z"
    and V: "V = tY + r3 * X + s * Y - r1 * Z"
    and W: "W = tZ - r2 * X + r1 * Y + s * Z"
  shows "\<bar>s * U - r3 * V + r2 * W\<bar> \<le> 1 / 20"
    and "\<bar>r3 * U + s * V - r1 * W\<bar> \<le> 1 / 20"
    and "\<bar>- r2 * U + r1 * V + s * W\<bar> \<le> 1 / 20"
proof -
  have p: "\<bar>s * X\<bar> \<le> 107" "\<bar>s * Y\<bar> \<le> 107" "\<bar>s * Z\<bar> \<le> 107"
    using abs_prod_le [OF sa X] abs_prod_le [OF sa Y] abs_prod_le [OF sa Z] by simp_all
  have q3: "\<bar>r3 * X\<bar> \<le> 260" "\<bar>r3 * Y\<bar> \<le> 260"
    using abs_prod_le [OF r3 X] abs_prod_le [OF r3 Y] by simp_all
  have q2: "\<bar>r2 * X\<bar> \<le> 60" "\<bar>r2 * Z\<bar> \<le> 60"
    using abs_prod_le [OF r2 X] abs_prod_le [OF r2 Z] by simp_all
  have q1: "\<bar>r1 * Y\<bar> \<le> 26" "\<bar>r1 * Z\<bar> \<le> 26"
    using abs_prod_le [OF r1 Y] abs_prod_le [OF r1 Z] by simp_all
  have Ub: "\<bar>U\<bar> \<le> 608" unfolding U using t(1) p(1) q3(2) q2(2) by linarith
  have Vb: "\<bar>V\<bar> \<le> 619" unfolding V using t(2) p(2) q3(1) q1(2) by linarith
  have Wb: "\<bar>W\<bar> \<le> 367" unfolding W using t(3) p(3) q2(1) q1(1) by linarith
  have ts: "\<bar>s * U\<bar> \<le> 102 / 10000" "\<bar>s * V\<bar> \<le> 104 / 10000" "\<bar>s * W\<bar> \<le> 62 / 10000"
    using abs_prod_le [OF sa Ub] abs_prod_le [OF sa Vb] abs_prod_le [OF sa Wb] by simp_all
  have t3: "\<bar>r3 * U\<bar> \<le> 247 / 10000" "\<bar>r3 * V\<bar> \<le> 251 / 10000"
    using abs_prod_le [OF r3 Ub] abs_prod_le [OF r3 Vb] by simp_all
  have t2: "\<bar>r2 * U\<bar> \<le> 57 / 10000" "\<bar>r2 * W\<bar> \<le> 35 / 10000"
    using abs_prod_le [OF r2 Ub] abs_prod_le [OF r2 Wb] by simp_all
  have t1: "\<bar>r1 * V\<bar> \<le> 25 / 10000" "\<bar>r1 * W\<bar> \<le> 15 / 10000"
    using abs_prod_le [OF r1 Vb] abs_prod_le [OF r1 Wb] by simp_all
  show "\<bar>s * U - r3 * V + r2 * W\<bar> \<le> 1 / 20" using ts(1) t3(2) t2(2) by linarith
  show "\<bar>r3 * U + s * V - r1 * W\<bar> \<le> 1 / 20" using t3(1) ts(2) t1(2) by linarith
  show "\<bar>- r2 * U + r1 * V + s * W\<bar> \<le> 1 / 20" using t2(1) t1(1) ts(3) by linarith
qed

lemma helmert_roundtrip_eq:
  "helmertInverse (helmertForward (X, Y, Z)) =
     (X - (16.71006 * (1 / 1000000) * (fst (helmertForward (X, Y, Z)) - X)
           - arcsec2rad 8.336 * (fst (snd (helmertForward (X, Y, Z))) - Y)
           + arcsec2rad (- 1.898) * (snd (snd (helmertForward (X, Y, Z))) - Z)),
      Y - (arcsec2rad 8.336 * (fst (helmertForward (X, Y, Z)) - X)
           + 16.71006 * (1 / 1000000) * (fst (snd (helmertForward (X, Y, Z))) - Y)
           - arcsec2rad (- 0.81) * (snd (snd (helmertForward (X, Y, Z))) - Z)),
      Z - (- arcsec2rad (- 1.898) * (fst (helmertForward (X, Y, Z)) - X)
           + arcsec2rad (- 0.81) * (fst (snd (helmertForward (X, Y, Z))) - Y)
           + 16.71006 * (1 / 1000000) * (snd (snd (helmertForward (X, Y, Z))) - Z)))"
proof -
  define s :: real where "s = 16.71006 * (1 / 1000000)"
  define r1 where "r1 = arcsec2rad (- 0.81)"
  define r2 where "r2 = arcsec2rad (- 1.898)"
  define r3 where "r3 = arcsec2rad 8.336"
  define Xt where "Xt = X + - 180.624 + s * X - r3 * Y + r2 * Z"
  define Yt where "Yt = Y + - 225.516 + r3 * X + s * Y - r1 * Z"
  define Zt where "Zt = Z + 173.919 - r2 * X + r1 * Y + s * Z"
  have fw: "helmertForward (X, Y, Z) = (Xt, Yt, Zt)"
    unfolding Xt_def Yt_def Zt_def s_def r1_def r2_def r3_def by (rule helmertForward_eq)
  have sneg: "- 16.71006 * (1 / 1000000) = - s" unfolding s_def by simp
  have inv: "helmertInverse (Xt, Yt, Zt) =
     (Xt + - (- 180.624) + - s * Xt - - r3 * Yt + - r2 * Zt,
      Yt + - (- 225.516) + - r3 * Xt + - s * Yt - - r1 * Zt,
      Zt + - 173.919 - - r2 * Xt + - r1 * Yt + - s * Zt)"
    unfolding r1_def r2_def r3_def sneg [symmetric] by (rule helmertInverse_eq)
  note rt = helmert_linear_roundtrip [OF Xt_def Yt_def Zt_def]
  have eq: "helmertInverse (helmertForward (X, Y, Z)) =
      (X - (s * (Xt - X) - r3 * (Yt - Y) + r2 * (Zt - Z)),
       Y - (r3 * (Xt - X) + s * (Yt - Y) - r1 * (Zt - Z)),
       Z - (- r2 * (Xt - X) + r1 * (Yt - Y) + s * (Zt - Z)))"
    unfolding fw inv by (simp only: rt)
  show ?thesis
    unfolding eq unfolding fw fst_conv snd_conv s_def r1_def r2_def r3_def ..
qed

lemma helmertForward_offsets:
  "fst (helmertForward (X, Y, Z)) - X
     = - 180.624 + 16.71006 * (1 / 1000000) * X - arcsec2rad 8.336 * Y + arcsec2rad (- 1.898) * Z"
  "fst (snd (helmertForward (X, Y, Z))) - Y
     = - 225.516 + arcsec2rad 8.336 * X + 16.71006 * (1 / 1000000) * Y - arcsec2rad (- 0.81) * Z"
  "snd (snd (helmertForward (X, Y, Z))) - Z
     = 173.919 - arcsec2rad (- 1.898) * X + arcsec2rad (- 0.81) * Y + 16.71006 * (1 / 1000000) * Z"
  unfolding helmertForward_eq fst_conv snd_conv by simp_all

lemma skew_kernel_trivial:
  fixes s :: real
  assumes "0 < s"
    and "s * U - r3 * V + r2 * W = 0"
    and "r3 * U + s * V - r1 * W = 0"
    and "- r2 * U + r1 * V + s * W = 0"
  shows "U = 0 \<and> V = 0 \<and> W = 0"
proof -
  have "s * (U\<^sup>2 + V\<^sup>2 + W\<^sup>2)
      = U * (s * U - r3 * V + r2 * W) + V * (r3 * U + s * V - r1 * W)
        + W * (- r2 * U + r1 * V + s * W)"
    by (simp add: algebra_simps power2_eq_square)
  also have "\<dots> = 0" using assms by simp
  finally have "U\<^sup>2 + V\<^sup>2 + W\<^sup>2 = 0" using assms(1) by simp
  then show ?thesis by (simp add: sum_power2_eq_zero_iff add_nonneg_eq_0_iff)
qed

lemma arcsec2rad_signs:
  "arcsec2rad (- 0.81) \<le> 0" "arcsec2rad (- 1.898) \<le> 0" "0 < arcsec2rad 8.336"
  by (simp_all add: arcsec2rad_def)

lemma helmert_fixed_point_outside:
  fixes X :: real
  assumes X: "\<bar>X\<bar> \<le> 6400000" and Y: "\<bar>Y\<bar> \<le> 6400000" and Z: "\<bar>Z\<bar> \<le> 6400000"
    and r1: "\<bar>r1\<bar> \<le> 4 / 1000000" and r2: "\<bar>r2\<bar> \<le> 93 / 10000000"
    and sa: "\<bar>s\<bar> \<le> 1671006 / 100000000000"
    and n1: "r1 \<le> 0" and n2: "r2 \<le> 0" and p3: "0 < r3"
    and tX: "tX \<le> - 180" and tY: "tY \<le> - 225" and tZ: "173 \<le> tZ"
    and U: "tX + s * X - r3 * Y + r2 * Z = 0"
    and V: "tY + r3 * X + s * Y - r1 * Z = 0"
  shows "0 < tZ - r2 * X + r1 * Y + s * Z"
proof -
  have p: "\<bar>s * X\<bar> \<le> 107" "\<bar>s * Y\<bar> \<le> 107" "\<bar>s * Z\<bar> \<le> 107"
    using abs_prod_le [OF sa X] abs_prod_le [OF sa Y] abs_prod_le [OF sa Z] by simp_all
  have q2: "\<bar>r2 * Z\<bar> \<le> 60"
    using abs_prod_le [OF r2 Z] by simp
  have q1: "\<bar>r1 * Z\<bar> \<le> 26"
    using abs_prod_le [OF r1 Z] by simp
  have "0 < r3 * X" using V tY p(2) q1 by linarith
  then have X0: "0 \<le> X" using p3 by (simp add: zero_less_mult_iff)
  have "r3 * Y < 0" using U tX p(1) q2 by linarith
  then have Y0: "Y \<le> 0" using p3 by (simp add: mult_less_0_iff)
  have a: "0 \<le> - r2 * X" using n2 X0 by (simp add: mult_nonpos_nonneg)
  have b: "0 \<le> r1 * Y" using n1 Y0 by (simp add: mult_nonpos_nonpos)
  show ?thesis using a b p(3) tZ by linarith
qed


lemma helmert_roundtrip_moves_box:
  assumes b: "\<bar>X\<bar> \<le> 6400000" "\<bar>Y\<bar> \<le> 6400000" "\<bar>Z\<bar> \<le> 6400000"
  shows "helmertInverse (helmertForward (X, Y, Z)) \<noteq> (X, Y, Z)"
proof
  assume eq: "helmertInverse (helmertForward (X, Y, Z)) = (X, Y, Z)"
  define U where "U = fst (helmertForward (X, Y, Z)) - X"
  define V where "V = fst (snd (helmertForward (X, Y, Z))) - Y"
  define W where "W = snd (snd (helmertForward (X, Y, Z))) - Z"
  have res: "(X - (16.71006 * (1 / 1000000) * U - arcsec2rad 8.336 * V + arcsec2rad (- 1.898) * W),
      Y - (arcsec2rad 8.336 * U + 16.71006 * (1 / 1000000) * V - arcsec2rad (- 0.81) * W),
      Z - (- arcsec2rad (- 1.898) * U + arcsec2rad (- 0.81) * V + 16.71006 * (1 / 1000000) * W))
      = (X, Y, Z)"
    using eq unfolding helmert_roundtrip_eq [of X Y Z] U_def V_def W_def .
  have z: "16.71006 * (1 / 1000000) * U - arcsec2rad 8.336 * V + arcsec2rad (- 1.898) * W = 0"
    "arcsec2rad 8.336 * U + 16.71006 * (1 / 1000000) * V - arcsec2rad (- 0.81) * W = 0"
    "- arcsec2rad (- 1.898) * U + arcsec2rad (- 0.81) * V + 16.71006 * (1 / 1000000) * W = 0"
    using res by simp_all
  have s0: "(0::real) < 16.71006 * (1 / 1000000)" by simp
  have k: "U = 0 \<and> V = 0 \<and> W = 0"
    by (rule skew_kernel_trivial [OF s0 z])
  have o: "- 180.624 + 16.71006 * (1 / 1000000) * X - arcsec2rad 8.336 * Y + arcsec2rad (- 1.898) * Z = 0"
    "- 225.516 + arcsec2rad 8.336 * X + 16.71006 * (1 / 1000000) * Y - arcsec2rad (- 0.81) * Z = 0"
    "173.919 - arcsec2rad (- 1.898) * X + arcsec2rad (- 0.81) * Y + 16.71006 * (1 / 1000000) * Z = 0"
    using k unfolding U_def V_def W_def helmertForward_offsets by blast+
  have sa: "\<bar>16.71006 * (1 / 1000000) :: real\<bar> \<le> 1671006 / 100000000000" by simp
  have t: "(- 180.624 :: real) \<le> - 180" "(- 225.516 :: real) \<le> - 225" "(173 :: real) \<le> 173.919"
    by simp_all
  have "0 < 173.919 - arcsec2rad (- 1.898) * X + arcsec2rad (- 0.81) * Y + 16.71006 * (1 / 1000000) * Z"
    by (rule helmert_fixed_point_outside [OF b arcsec2rad_bounds(1,2) sa arcsec2rad_signs t o(1,2)])
  then show False using o(3) by simp
qed

text \<open>
  C2, as amended. For every Cartesian point, forward Helmert followed by the inverse by
  negation returns the original point minus a residual of second order in the
  parameters: the linear part of the transformation applied to the forward
  displacement. For every point whose coordinates are at most 6400 km in absolute value,
  each coordinate comes back within 5 cm of the original, and the point that comes back
  is never the original point itself: on this box negating the parameters is a
  first-order inverse and not an exact one.
\<close>

theorem helmert_roundtrip_residual:
  "helmertInverse (helmertForward (X, Y, Z)) =
     (X - (16.71006 * (1 / 1000000) * (fst (helmertForward (X, Y, Z)) - X)
           - arcsec2rad 8.336 * (fst (snd (helmertForward (X, Y, Z))) - Y)
           + arcsec2rad (- 1.898) * (snd (snd (helmertForward (X, Y, Z))) - Z)),
      Y - (arcsec2rad 8.336 * (fst (helmertForward (X, Y, Z)) - X)
           + 16.71006 * (1 / 1000000) * (fst (snd (helmertForward (X, Y, Z))) - Y)
           - arcsec2rad (- 0.81) * (snd (snd (helmertForward (X, Y, Z))) - Z)),
      Z - (- arcsec2rad (- 1.898) * (fst (helmertForward (X, Y, Z)) - X)
           + arcsec2rad (- 0.81) * (fst (snd (helmertForward (X, Y, Z))) - Y)
           + 16.71006 * (1 / 1000000) * (snd (snd (helmertForward (X, Y, Z))) - Z)))
   \<and> (\<bar>X\<bar> \<le> 6400000 \<and> \<bar>Y\<bar> \<le> 6400000 \<and> \<bar>Z\<bar> \<le> 6400000 \<longrightarrow>
        \<bar>fst (helmertInverse (helmertForward (X, Y, Z))) - X\<bar> \<le> 0.05
      \<and> \<bar>fst (snd (helmertInverse (helmertForward (X, Y, Z)))) - Y\<bar> \<le> 0.05
      \<and> \<bar>snd (snd (helmertInverse (helmertForward (X, Y, Z)))) - Z\<bar> \<le> 0.05
      \<and> helmertInverse (helmertForward (X, Y, Z)) \<noteq> (X, Y, Z))"
proof (intro conjI impI; (elim conjE)?)
  show "helmertInverse (helmertForward (X, Y, Z)) =
     (X - (16.71006 * (1 / 1000000) * (fst (helmertForward (X, Y, Z)) - X)
           - arcsec2rad 8.336 * (fst (snd (helmertForward (X, Y, Z))) - Y)
           + arcsec2rad (- 1.898) * (snd (snd (helmertForward (X, Y, Z))) - Z)),
      Y - (arcsec2rad 8.336 * (fst (helmertForward (X, Y, Z)) - X)
           + 16.71006 * (1 / 1000000) * (fst (snd (helmertForward (X, Y, Z))) - Y)
           - arcsec2rad (- 0.81) * (snd (snd (helmertForward (X, Y, Z))) - Z)),
      Z - (- arcsec2rad (- 1.898) * (fst (helmertForward (X, Y, Z)) - X)
           + arcsec2rad (- 0.81) * (fst (snd (helmertForward (X, Y, Z))) - Y)
           + 16.71006 * (1 / 1000000) * (snd (snd (helmertForward (X, Y, Z))) - Z)))"
    by (rule helmert_roundtrip_eq)
next
  assume b: "\<bar>X\<bar> \<le> 6400000" "\<bar>Y\<bar> \<le> 6400000" "\<bar>Z\<bar> \<le> 6400000"
  have sa: "\<bar>16.71006 * (1 / 1000000) :: real\<bar> \<le> 1671006 / 100000000000" by simp
  have t: "\<bar>- 180.624 :: real\<bar> \<le> 181" "\<bar>- 225.516 :: real\<bar> \<le> 226" "\<bar>173.919 :: real\<bar> \<le> 174"
    by simp_all
  note res = helmert_residual_small [OF b arcsec2rad_bounds sa t helmertForward_offsets]
  have c: "\<bar>(x - r) - x\<bar> = \<bar>r\<bar>" for x r :: real by simp
  have n: "(1 / 20 :: real) = 0.05" by simp
  show "\<bar>fst (helmertInverse (helmertForward (X, Y, Z))) - X\<bar> \<le> 0.05"
    unfolding helmert_roundtrip_eq [of X Y Z] fst_conv snd_conv c using res(1) n by (simp only:)
  show "\<bar>fst (snd (helmertInverse (helmertForward (X, Y, Z)))) - Y\<bar> \<le> 0.05"
    unfolding helmert_roundtrip_eq [of X Y Z] fst_conv snd_conv c using res(2) n by (simp only:)
  show "\<bar>snd (snd (helmertInverse (helmertForward (X, Y, Z)))) - Z\<bar> \<le> 0.05"
    unfolding helmert_roundtrip_eq [of X Y Z] fst_conv snd_conv c using res(3) n by (simp only:)
  show "helmertInverse (helmertForward (X, Y, Z)) \<noteq> (X, Y, Z)"
    by (rule helmert_roundtrip_moves_box [OF b])
qed

text \<open>The bound and the displacement at the point \<open>(6378137, 0, 0)\<close> on the WGS84 equator.\<close>

theorem helmert_roundtrip_residual_witness:
  "\<bar>6378137 :: real\<bar> \<le> 6400000 \<and> \<bar>0 :: real\<bar> \<le> 6400000
   \<and> \<bar>fst (helmertInverse (helmertForward (6378137, 0, 0))) - 6378137\<bar> \<le> 0.05
   \<and> \<bar>fst (snd (helmertInverse (helmertForward (6378137, 0, 0)))) - 0\<bar> \<le> 0.05
   \<and> \<bar>snd (snd (helmertInverse (helmertForward (6378137, 0, 0)))) - 0\<bar> \<le> 0.05
   \<and> helmertInverse (helmertForward (6378137, 0, 0)) \<noteq> (6378137, 0, 0)"
proof -
  have h: "\<bar>6378137 :: real\<bar> \<le> 6400000 \<and> \<bar>0 :: real\<bar> \<le> 6400000 \<and> \<bar>0 :: real\<bar> \<le> 6400000"
    by simp
  from helmert_roundtrip_residual [of 6378137 0 0] h show ?thesis by blast
qed

text \<open>
  C2 as stated fails: at \<open>(6378137, 0, 0)\<close> the round trip moves the first coordinate
  by more than a millimetre, far above the rounding error of double arithmetic at this
  magnitude.
\<close>

theorem helmert_roundtrip_not_exact:
  "helmertInverse (helmertForward (6378137, 0, 0)) \<noteq> (6378137, 0, 0)
   \<and> 0.001 < fst (helmertInverse (helmertForward (6378137, 0, 0))) - 6378137"
proof -
  define s :: real where "s = 16.71006 * (1 / 1000000)"
  define r2 where "r2 = arcsec2rad (- 1.898)"
  define r3 where "r3 = arcsec2rad 8.336"
  define U where "U = - 180.624 + s * 6378137"
  define V where "V = - 225.516 + r3 * 6378137"
  define W where "W = 173.919 - r2 * 6378137"
  have off: "fst (helmertForward (6378137, 0, 0)) - 6378137 = U"
    "fst (snd (helmertForward (6378137, 0, 0))) - 0 = V"
    "snd (snd (helmertForward (6378137, 0, 0))) - 0 = W"
    unfolding helmertForward_offsets U_def V_def W_def s_def r2_def r3_def by simp_all
  have fsteq: "fst (helmertInverse (helmertForward (6378137, 0, 0))) - 6378137
      = - (s * U) + r3 * V + - r2 * W"
    unfolding helmert_roundtrip_eq [of 6378137 0 0] fst_conv off
    unfolding s_def [symmetric] r2_def [symmetric] r3_def [symmetric] by simp
  have r3: "38 / 1000000 \<le> r3" unfolding r3_def arcsec2rad_def using pi_gt_three by simp
  have r2: "r2 \<le> 0" unfolding r2_def arcsec2rad_def using pi_gt_three by simp
  have "0 \<le> r3 * 6378137 - 226" using r3 by simp
  then have V0: "0 \<le> V" unfolding V_def by simp
  have "0 \<le> - r2 * 6378137" using r2 by simp
  then have W0: "0 \<le> W" unfolding W_def by simp
  have t1: "12 / 10000 < - (s * U)" unfolding U_def s_def by simp
  have "0 \<le> r3" using r3 by simp
  then have t2: "0 \<le> r3 * V" using V0 by simp
  have t3: "0 \<le> - r2 * W" using r2 W0 by (simp add: mult_nonpos_nonneg)
  have gt: "1 / 1000 < fst (helmertInverse (helmertForward (6378137, 0, 0))) - 6378137"
    unfolding fsteq using t1 t2 t3 by linarith
  then have "fst (helmertInverse (helmertForward (6378137, 0, 0))) \<noteq> 6378137" by simp
  then have "helmertInverse (helmertForward (6378137, 0, 0)) \<noteq> (6378137, 0, 0)"
    by (metis fst_conv)
  then show ?thesis using gt by simp
qed

section \<open>The reference point near Muscat\<close>

text \<open>
  The point WGS84 (23.588, 58.3829) is followed through \<open>geodeticToECEF\<close> on the WGS84
  ellipsoid, the forward Helmert transformation, \<open>ecefToGeodetic\<close> on the Clarke 1880
  ellipsoid and \<open>psd93ToUTM\<close> in zone 40. Every intermediate quantity of the program
  gets a name and an enclosure between two decimal fractions.
\<close>

lemma geodeticToECEF_reference:
  "\<exists>X Y Z. geodeticToECEF 23.588 58.3829 0 6378137.0 (1 / 298.257223563) = (X, Y, Z)
     \<and> (30659430823 / 10000 \<le> X \<and> X \<le> 30659433312 / 10000)
     \<and> (49802882746 / 10000 \<le> Y \<and> Y \<le> 49802886063 / 10000)
     \<and> (253653086 / 100 \<le> Z \<and> Z \<le> 25365309506 / 10000)"
proof -
  note b_pi = pi_bounds
  define phi :: real where "phi = deg2rad 23.588"
  have b_phi: "41168825693 / 100000000000 \<le> phi \<and> phi \<le> 41168827005 / 100000000000"
    unfolding phi_def deg2rad_def using b_pi by simp
  define lam :: real where "lam = deg2rad 58.3829"
  have b_lam: "10189738144 / 10000000000 \<le> lam \<and> lam \<le> 1018973847 / 1000000000"
    unfolding lam_def deg2rad_def using b_pi by simp
  define e2 :: real where "e2 = 2 * (1 / 298.257223563) - (1 / 298.257223563) * (1 / 298.257223563)"
  have b_e2: "66943799901 / 10000000000000 \<le> e2 \<and> e2 \<le> 66943799902 / 10000000000000"
    unfolding e2_def by (simp add: power_divide)
  define phi_p2 :: real where "phi_p2 = phi * phi"
  have b_phi_p2: "169487220894 / 1000000000000 \<le> phi_p2 \<and> phi_p2 \<le> 1694872316968 / 10000000000000"
    unfolding phi_p2_def by (rule iv_mul [OF b_phi b_phi]) (simp_all add: power_divide)
  define phi_p3 :: real where "phi_p3 = phi_p2 * phi"
  have b_phi_p3: "6977589854176 / 100000000000000 \<le> phi_p3 \<and> phi_p3 \<le> 6977590521282 / 100000000000000"
    unfolding phi_p3_def by (rule iv_mul [OF b_phi_p2 b_phi]) (simp_all add: power_divide)
  define phi_p4 :: real where "phi_p4 = phi_p2 * phi_p2"
  have b_phi_p4: "2872591804637 / 100000000000000 \<le> phi_p4 \<and> phi_p4 \<le> 2872592170825 / 100000000000000"
    unfolding phi_p4_def by (rule iv_mul [OF b_phi_p2 b_phi_p2]) (simp_all add: power_divide)
  define phi_p5 :: real where "phi_p5 = phi_p3 * phi_p2"
  have b_phi_p5: "1182612312922 / 100000000000000 \<le> phi_p5 \<and> phi_p5 \<le> 1182612501366 / 100000000000000"
    unfolding phi_p5_def by (rule iv_mul [OF b_phi_p3 b_phi_p2]) (simp_all add: power_divide)
  define phi_p6 :: real where "phi_p6 = phi_p4 * phi_p2"
  have b_phi_p6: "4868676017308 / 1000000000000000 \<le> phi_p6 \<and> phi_p6 \<le> 4868676948271 / 1000000000000000"
    unfolding phi_p6_def by (rule iv_mul [OF b_phi_p4 b_phi_p2]) (simp_all add: power_divide)
  define phi_p7 :: real where "phi_p7 = phi_p5 * phi_p2"
  have b_phi_p7: "2004376743121 / 1000000000000000 \<le> phi_p7 \<and> phi_p7 \<le> 2004377190266 / 1000000000000000"
    unfolding phi_p7_def by (rule iv_mul [OF b_phi_p5 b_phi_p2]) (simp_all add: power_divide)
  define phi_p8 :: real where "phi_p8 = phi_p6 * phi_p2"
  have b_phi_p8: "8251783676068 / 10000000000000000 \<le> phi_p8 \<and> phi_p8 \<le> 8251785779885 / 10000000000000000"
    unfolding phi_p8_def by (rule iv_mul [OF b_phi_p6 b_phi_p2]) (simp_all add: power_divide)
  define phi_p9 :: real where "phi_p9 = phi_p7 * phi_p2"
  have b_phi_p9: "3397162438161 / 10000000000000000 \<le> phi_p9 \<and> phi_p9 \<le> 3397163412544 / 10000000000000000"
    unfolding phi_p9_def by (rule iv_mul [OF b_phi_p7 b_phi_p2]) (simp_all add: power_divide)
  define phi_p10 :: real where "phi_p10 = phi_p8 * phi_p2"
  have b_phi_p10: "1398571882675 / 10000000000000000 \<le> phi_p10 \<and> phi_p10 \<le> 1398572328388 / 10000000000000000"
    unfolding phi_p10_def by (rule iv_mul [OF b_phi_p8 b_phi_p2]) (simp_all add: power_divide)
  define phi_p11 :: real where "phi_p11 = phi_p9 * phi_p2"
  have b_phi_p11: "5757756205693 / 100000000000000000 \<le> phi_p11 \<and> phi_p11 \<le> 5757758224138 / 100000000000000000"
    unfolding phi_p11_def by (rule iv_mul [OF b_phi_p9 b_phi_p2]) (simp_all add: power_divide)
  define phi_p12 :: real where "phi_p12 = phi_p10 * phi_p2"
  have b_phi_p12: "237040061615 / 10000000000000000 \<le> phi_p12 \<and> phi_p12 \<le> 2370401522663 / 100000000000000000"
    unfolding phi_p12_def by (rule iv_mul [OF b_phi_p10 b_phi_p2]) (simp_all add: power_divide)
  define phi_p13 :: real where "phi_p13 = phi_p11 * phi_p2"
  have b_phi_p13: "975866097888 / 100000000000000000 \<le> phi_p13 \<and> phi_p13 \<le> 9758665021887 / 1000000000000000000"
    unfolding phi_p13_def by (rule iv_mul [OF b_phi_p11 b_phi_p2]) (simp_all add: power_divide)
  define phi_p14 :: real where "phi_p14 = phi_p12 * phi_p2"
  have b_phi_p14: "4017526128366 / 1000000000000000000 \<le> phi_p14 \<and> phi_p14 \<le> 4017527920861 / 1000000000000000000"
    unfolding phi_p14_def by (rule iv_mul [OF b_phi_p12 b_phi_p2]) (simp_all add: power_divide)
  have nn_phi: "0 \<le> phi" using b_phi by linarith
  define sphi :: real where "sphi = sin phi"
  have b_sphi: "40015709366 / 100000000000 \<le> sphi \<and> sphi \<le> 40015710791 / 100000000000"
    unfolding sphi_def using sin_chain [OF nn_phi phi_p2_def phi_p3_def phi_p5_def phi_p7_def phi_p9_def phi_p11_def phi_p13_def] b_phi b_phi_p3 b_phi_p5 b_phi_p7 b_phi_p9 b_phi_p11 b_phi_p13 by linarith
  define cphi :: real where "cphi = cos phi"
  have b_cphi: "91644655577 / 100000000000 \<le> cphi \<and> cphi \<le> 91644656134 / 100000000000"
    unfolding cphi_def using cos_chain [OF nn_phi phi_p2_def phi_p4_def phi_p6_def phi_p8_def phi_p10_def phi_p12_def phi_p14_def] b_phi_p2 b_phi_p4 b_phi_p6 b_phi_p8 b_phi_p10 b_phi_p12 b_phi_p14 by linarith
  define lam_p2 :: real where "lam_p2 = lam * lam"
  have b_lam_p2: "1038307634432 / 1000000000000 \<le> lam_p2 \<and> lam_p2 \<le> 103830770087 / 100000000000"
    unfolding lam_p2_def by (rule iv_mul [OF b_lam b_lam]) (simp_all add: power_divide)
  define lam_p3 :: real where "lam_p3 = lam_p2 * lam"
  have b_lam_p3: "1058008290777 / 1000000000000 \<le> lam_p3 \<and> lam_p3 \<le> 1058008392326 / 1000000000000"
    unfolding lam_p3_def by (rule iv_mul [OF b_lam_p2 b_lam]) (simp_all add: power_divide)
  define lam_p4 :: real where "lam_p4 = lam_p2 * lam_p2"
  have b_lam_p4: "1078082743719 / 1000000000000 \<le> lam_p4 \<and> lam_p4 \<le> 1078082881686 / 1000000000000"
    unfolding lam_p4_def by (rule iv_mul [OF b_lam_p2 b_lam_p2]) (simp_all add: power_divide)
  define lam_p5 :: real where "lam_p5 = lam_p3 * lam_p2"
  have b_lam_p5: "1098538085606 / 1000000000000 \<le> lam_p5 \<and> lam_p5 \<le> 1098538261338 / 1000000000000"
    unfolding lam_p5_def by (rule iv_mul [OF b_lam_p3 b_lam_p2]) (simp_all add: power_divide)
  define lam_p6 :: real where "lam_p6 = lam_p4 * lam_p2"
  have b_lam_p6: "1119381543352 / 1000000000000 \<le> lam_p6 \<and> lam_p6 \<le> 1119381758231 / 1000000000000"
    unfolding lam_p6_def by (rule iv_mul [OF b_lam_p4 b_lam_p2]) (simp_all add: power_divide)
  define lam_p7 :: real where "lam_p7 = lam_p5 * lam_p2"
  have b_lam_p7: "1140620480999 / 1000000000000 \<le> lam_p7 \<and> lam_p7 \<le> 1140620736448 / 1000000000000"
    unfolding lam_p7_def by (rule iv_mul [OF b_lam_p5 b_lam_p2]) (simp_all add: power_divide)
  define lam_p8 :: real where "lam_p8 = lam_p6 * lam_p2"
  have b_lam_p8: "1162262402304 / 1000000000000 \<le> lam_p8 \<and> lam_p8 \<le> 1162262699785 / 1000000000000"
    unfolding lam_p8_def by (rule iv_mul [OF b_lam_p6 b_lam_p2]) (simp_all add: power_divide)
  define lam_p9 :: real where "lam_p9 = lam_p7 * lam_p2"
  have b_lam_p9: "118431495341 / 100000000000 \<le> lam_p9 \<and> lam_p9 \<le> 1184315294426 / 1000000000000"
    unfolding lam_p9_def by (rule iv_mul [OF b_lam_p7 b_lam_p2]) (simp_all add: power_divide)
  define lam_p10 :: real where "lam_p10 = lam_p8 * lam_p2"
  have b_lam_p10: "1206785925525 / 1000000000000 \<le> lam_p10 \<and> lam_p10 \<le> 1206786311621 / 1000000000000"
    unfolding lam_p10_def by (rule iv_mul [OF b_lam_p8 b_lam_p2]) (simp_all add: power_divide)
  define lam_p11 :: real where "lam_p11 = lam_p9 * lam_p2"
  have b_lam_p11: "1229683257697 / 1000000000000 \<le> lam_p11 \<and> lam_p11 \<le> 1229683690461 / 1000000000000"
    unfolding lam_p11_def by (rule iv_mul [OF b_lam_p9 b_lam_p2]) (simp_all add: power_divide)
  define lam_p12 :: real where "lam_p12 = lam_p10 * lam_p2"
  have b_lam_p12: "1253015039597 / 1000000000000 \<le> lam_p12 \<and> lam_p12 \<le> 1253015520661 / 1000000000000"
    unfolding lam_p12_def by (rule iv_mul [OF b_lam_p10 b_lam_p2]) (simp_all add: power_divide)
  define lam_p13 :: real where "lam_p13 = lam_p11 * lam_p2"
  have b_lam_p13: "12767895144 / 10000000000 \<le> lam_p13 \<and> lam_p13 \<le> 127679004544 / 100000000000"
    unfolding lam_p13_def by (rule iv_mul [OF b_lam_p11 b_lam_p2]) (simp_all add: power_divide)
  define lam_p14 :: real where "lam_p14 = lam_p12 * lam_p2"
  have b_lam_p14: "1301015081671 / 1000000000000 \<le> lam_p14 \<and> lam_p14 \<le> 1301015664412 / 1000000000000"
    unfolding lam_p14_def by (rule iv_mul [OF b_lam_p12 b_lam_p2]) (simp_all add: power_divide)
  have nn_lam: "0 \<le> lam" using b_lam by linarith
  define slam :: real where "slam = sin lam"
  have b_slam: "85157048539 / 100000000000 \<le> slam \<and> slam \<le> 85157053685 / 100000000000"
    unfolding slam_def using sin_chain [OF nn_lam lam_p2_def lam_p3_def lam_p5_def lam_p7_def lam_p9_def lam_p11_def lam_p13_def] b_lam b_lam_p3 b_lam_p5 b_lam_p7 b_lam_p9 b_lam_p11 b_lam_p13 by linarith
  define clam :: real where "clam = cos lam"
  have b_clam: "52424006299 / 100000000000 \<le> clam \<and> clam \<le> 5242401023 / 10000000000"
    unfolding clam_def using cos_chain [OF nn_lam lam_p2_def lam_p4_def lam_p6_def lam_p8_def lam_p10_def lam_p12_def lam_p14_def] b_lam_p2 b_lam_p4 b_lam_p6 b_lam_p8 b_lam_p10 b_lam_p12 b_lam_p14 by linarith
  define e2s :: real where "e2s = e2 * sphi"
  have b_e2s: "26788036406 / 10000000000000 \<le> e2s \<and> e2s \<le> 26788037362 / 10000000000000"
    unfolding e2s_def by (rule iv_mul [OF b_e2 b_sphi]) (simp_all add: power_divide)
  define e2ss :: real where "e2ss = e2s * sphi"
  have b_e2ss: "10719422793 / 10000000000000 \<le> e2ss \<and> e2ss \<le> 10719423558 / 10000000000000"
    unfolding e2ss_def by (rule iv_mul [OF b_e2s b_sphi]) (simp_all add: power_divide)
  define w :: real where "w = 1 - e2ss"
  have b_w: "99892805764 / 100000000000 \<le> w \<and> w \<le> 99892805773 / 100000000000"
    unfolding w_def using b_e2ss by linarith
  define sq :: real where "sq = sqrt w"
  have b_sq: "99946388511 / 100000000000 \<le> sq \<and> sq \<le> 99946388516 / 100000000000"
    unfolding sq_def by (rule iv_sqrt [OF b_w]) (simp_all add: power_divide)
  define a :: real where "a = 6378137.0"
  have b_a: "6378137 \<le> a \<and> a \<le> 6378137"
    unfolding a_def by simp
  define N :: real where "N = a / sq"
  have b_N: "6381558248 / 1000 \<le> N \<and> N \<le> 63815582484 / 10000"
    unfolding N_def by (rule iv_div [OF b_a b_sq]) (simp_all add: power_divide)
  define Nh :: real where "Nh = N + 0"
  have b_Nh: "6381558248 / 1000 \<le> Nh \<and> Nh \<le> 63815582484 / 10000"
    unfolding Nh_def using b_N by linarith
  define Nc :: real where "Nc = Nh * cphi"
  have b_Nc: "58483570768 / 10000 \<le> Nc \<and> Nc \<le> 58483571128 / 10000"
    unfolding Nc_def by (rule iv_mul [OF b_Nh b_cphi]) (simp_all add: power_divide)
  define X :: real where "X = Nc * clam"
  have b_X: "30659430823 / 10000 \<le> X \<and> X \<le> 30659433312 / 10000"
    unfolding X_def by (rule iv_mul [OF b_Nc b_clam]) (simp_all add: power_divide)
  define Y :: real where "Y = Nc * slam"
  have b_Y: "49802882746 / 10000 \<le> Y \<and> Y \<le> 49802886063 / 10000"
    unfolding Y_def by (rule iv_mul [OF b_Nc b_slam]) (simp_all add: power_divide)
  define ome2 :: real where "ome2 = 1 - e2"
  have b_ome2: "99330562 / 100000000 \<le> ome2 \<and> ome2 \<le> 99330562001 / 100000000000"
    unfolding ome2_def e2_def by (simp add: power_divide)
  define Nz :: real where "Nz = N * ome2"
  have b_Nz: "6338837672 / 1000 \<le> Nz \<and> Nz \<le> 63388376726 / 10000"
    unfolding Nz_def by (rule iv_mul [OF b_N b_ome2]) (simp_all add: power_divide)
  define Nzh :: real where "Nzh = Nz + 0"
  have b_Nzh: "6338837672 / 1000 \<le> Nzh \<and> Nzh \<le> 63388376726 / 10000"
    unfolding Nzh_def using b_Nz by linarith
  define Z :: real where "Z = Nzh * sphi"
  have b_Z: "253653086 / 100 \<le> Z \<and> Z \<le> 25365309506 / 10000"
    unfolding Z_def by (rule iv_mul [OF b_Nzh b_sphi]) (simp_all add: power_divide)
  have eq: "geodeticToECEF 23.588 58.3829 0 6378137.0 (1 / 298.257223563) = (X, Y, Z)"
    unfolding X_def Y_def Z_def Nc_def Nh_def Nzh_def Nz_def ome2_def N_def a_def sq_def w_def
      e2ss_def e2s_def sphi_def cphi_def slam_def clam_def e2_def phi_def lam_def
    by (simp only: geodeticToECEF_def Let_def)
  show ?thesis using eq b_X b_Y b_Z by blast
qed

lemma helmertForward_reference:
  fixes X Y Z :: real
  assumes b_X: "30659430823 / 10000 \<le> X \<and> X \<le> 30659433312 / 10000"
    and b_Y: "49802882746 / 10000 \<le> Y \<and> Y \<le> 49802886063 / 10000"
    and b_Z: "253653086 / 100 \<le> Z \<and> Z \<le> 25365309506 / 10000"
  shows "\<exists>Xt Yt Zt. helmertForward (X, Y, Z) = (Xt, Yt, Zt)
     \<and> (30655890761 / 10000 \<le> Xt \<and> Xt \<le> 30655893251 / 10000)
     \<and> (49802798476 / 10000 \<le> Yt \<and> Yt \<le> 49802801795 / 10000)
     \<and> (25367558191 / 10000 \<le> Zt \<and> Zt \<le> 25367559098 / 10000)"
proof -
  note b_pi = pi_bounds
  define k1 :: real where "k1 = arcsec2rad 0.81"
  have b_k1: "392699075 / 100000000000000 \<le> k1 \<and> k1 \<le> 3926990875 / 1000000000000000"
    unfolding k1_def arcsec2rad_def using b_pi by simp
  define k2 :: real where "k2 = arcsec2rad 1.898"
  have b_k2: "92017635104 / 10000000000000000 \<le> k2 \<and> k2 \<le> 92017638034 / 10000000000000000"
    unfolding k2_def arcsec2rad_def using b_pi by simp
  define k3 :: real where "k3 = arcsec2rad 8.336"
  have b_k3: "40414067767 / 1000000000000000 \<le> k3 \<and> k3 \<le> 40414069055 / 1000000000000000"
    unfolding k3_def arcsec2rad_def using b_pi by simp
  define s :: real where "s = 16.71006 * (1 / 1000000)"
  have b_s: "1671006 / 100000000000 \<le> s \<and> s \<le> 1671006 / 100000000000"
    unfolding s_def by (simp add: power_divide)
  define sX :: real where "sX = s * X"
  have b_sX: "51232092861 / 1000000000 \<le> sX \<and> sX \<le> 51232097021 / 1000000000"
    unfolding sX_def by (rule iv_mul [OF b_s b_X]) (simp_all add: power_divide)
  define sY :: real where "sY = s * Y"
  have b_sY: "83220915885 / 1000000000 \<le> sY \<and> sY \<le> 83220921429 / 1000000000"
    unfolding sY_def by (rule iv_mul [OF b_s b_Y]) (simp_all add: power_divide)
  define sZ :: real where "sZ = s * Z"
  have b_sZ: "42385582862 / 1000000000 \<le> sZ \<and> sZ \<le> 42385584377 / 1000000000"
    unfolding sZ_def by (rule iv_mul [OF b_s b_Z]) (simp_all add: power_divide)
  define k3X :: real where "k3X = k3 * X"
  have b_k3X: "12390723149 / 100000000 \<le> k3X \<and> k3X \<le> 12390724551 / 100000000"
    unfolding k3X_def by (rule iv_mul [OF b_k3 b_X]) (simp_all add: power_divide)
  define k3Y :: real where "k3Y = k3 * Y"
  have b_k3Y: "20127370782 / 100000000 \<le> k3Y \<and> k3Y \<le> 20127372765 / 100000000"
    unfolding k3Y_def by (rule iv_mul [OF b_k3 b_Y]) (simp_all add: power_divide)
  define k2X :: real where "k2X = k2 * X"
  have b_k2X: "28212083179 / 1000000000 \<le> k2X \<and> k2X \<le> 28212086369 / 1000000000"
    unfolding k2X_def by (rule iv_mul [OF b_k2 b_X]) (simp_all add: power_divide)
  define k2Z :: real where "k2Z = k2 * Z"
  have b_k2Z: "2334055711 / 100000000 \<le> k2Z \<and> k2Z \<le> 23340558688 / 1000000000"
    unfolding k2Z_def by (rule iv_mul [OF b_k2 b_Z]) (simp_all add: power_divide)
  define k1Y :: real where "k1Y = k1 * Y"
  have b_k1Y: "19557545986 / 1000000000 \<le> k1Y \<and> k1Y \<le> 19557547912 / 1000000000"
    unfolding k1Y_def by (rule iv_mul [OF b_k1 b_Y]) (simp_all add: power_divide)
  define k1Z :: real where "k1Z = k1 * Z"
  have b_k1Z: "99609332243 / 10000000000 \<le> k1Z \<and> k1Z \<le> 99609338972 / 10000000000"
    unfolding k1Z_def by (rule iv_mul [OF b_k1 b_Z]) (simp_all add: power_divide)
  have neg: "arcsec2rad (- 0.81) = - k1" "arcsec2rad (- 1.898) = - k2"
    unfolding k1_def k2_def arcsec2rad_def by simp_all
  define Xt where "Xt = X + - 180.624 + 16.71006 * (1 / 1000000) * X - arcsec2rad 8.336 * Y + arcsec2rad (- 1.898) * Z"
  have Xt_alt: "Xt = X - 180624 / 1000 + sX - k3Y - k2Z"
    unfolding Xt_def neg sX_def sY_def sZ_def k3X_def k3Y_def k2X_def k2Z_def k1Y_def k1Z_def s_def k3_def
    by simp
  have b_Xt: "30655890761 / 10000 \<le> Xt \<and> Xt \<le> 30655893251 / 10000"
    unfolding Xt_alt using b_X b_sX b_k3Y b_k2Z by linarith
  define Yt where "Yt = Y + - 225.516 + arcsec2rad 8.336 * X + 16.71006 * (1 / 1000000) * Y - arcsec2rad (- 0.81) * Z"
  have Yt_alt: "Yt = Y - 225516 / 1000 + k3X + sY + k1Z"
    unfolding Yt_def neg sX_def sY_def sZ_def k3X_def k3Y_def k2X_def k2Z_def k1Y_def k1Z_def s_def k3_def
    by simp
  have b_Yt: "49802798476 / 10000 \<le> Yt \<and> Yt \<le> 49802801795 / 10000"
    unfolding Yt_alt using b_Y b_k3X b_sY b_k1Z by linarith
  define Zt where "Zt = Z + 173.919 - arcsec2rad (- 1.898) * X + arcsec2rad (- 0.81) * Y + 16.71006 * (1 / 1000000) * Z"
  have Zt_alt: "Zt = Z + 173919 / 1000 + k2X - k1Y + sZ"
    unfolding Zt_def neg sX_def sY_def sZ_def k3X_def k3Y_def k2X_def k2Z_def k1Y_def k1Z_def s_def k3_def
    by simp
  have b_Zt: "25367558191 / 10000 \<le> Zt \<and> Zt \<le> 25367559098 / 10000"
    unfolding Zt_alt using b_Z b_k2X b_k1Y b_sZ by linarith
  have eq: "helmertForward (X, Y, Z) = (Xt, Yt, Zt)"
    unfolding Xt_def Yt_def Zt_def by (rule helmertForward_eq)
  show ?thesis using eq b_Xt b_Yt b_Zt by blast
qed

lemma ecefToGeodetic_reference:
  fixes Xt Yt Zt :: real
  assumes b_Xt: "30655890761 / 10000 \<le> Xt \<and> Xt \<le> 30655893251 / 10000"
    and b_Yt: "49802798476 / 10000 \<le> Yt \<and> Yt \<le> 49802801795 / 10000"
    and b_Zt: "25367558191 / 10000 \<le> Zt \<and> Zt \<le> 25367559098 / 10000"
  shows "\<exists>la lo h. ecefToGeodetic Xt Yt Zt 6378249.145 (1 / 293.465) = (la, lo, h)
     \<and> (4117732 / 10000000 \<le> deg2rad la \<and> deg2rad la \<le> 41177325 / 100000000)
     \<and> (101902459 / 100000000 \<le> deg2rad lo \<and> deg2rad lo \<le> 101902466 / 100000000)"
proof -
  define e2c :: real where "e2c = 2 * (1 / 293.465) - 1 / 293.465 * (1 / 293.465)"
  have b_e2c: "68035112828 / 10000000000000 \<le> e2c \<and> e2c \<le> 68035112829 / 10000000000000"
    unfolding e2c_def by (simp add: power_divide)
  define ep2 :: real where "ep2 = e2c / (1 - e2c)"
  have b_ep2: "68501161251 / 10000000000000 \<le> ep2 \<and> ep2 \<le> 68501161252 / 10000000000000"
    unfolding ep2_def e2c_def by (simp add: power_divide)
  define omf :: real where "omf = 1 - 1 / 293.465"
  have b_omf: "99659243862 / 100000000000 \<le> omf \<and> omf \<le> 99659243863 / 100000000000"
    unfolding omf_def by (simp add: power_divide)
  define ac :: real where "ac = 6378249.145"
  have b_ac: "6378249145 / 1000 \<le> ac \<and> ac \<le> 6378249145 / 1000"
    unfolding ac_def by simp
  define XX :: real where "XX = Xt * Xt"
  have b_XX: "9397836383500 \<le> XX \<and> XX \<le> 9397837910200"
    unfolding XX_def by (rule iv_mul [OF b_Xt b_Xt]) (simp_all add: power_divide)
  define YY :: real where "YY = Yt * Yt"
  have b_YY: "24803187360000 \<le> YY \<and> YY \<le> 24803190667000"
    unfolding YY_def by (rule iv_mul [OF b_Yt b_Yt]) (simp_all add: power_divide)
  define pp :: real where "pp = XX + YY"
  have b_pp: "34201023743000 \<le> pp \<and> pp \<le> 34201028578000"
    unfolding pp_def using b_XX b_YY by linarith
  define p :: real where "p = sqrt pp"
  have b_p: "58481641344 / 10000 \<le> p \<and> p \<le> 58481645478 / 10000"
    unfolding p_def by (rule iv_sqrt [OF b_pp]) (simp_all add: power_divide)
  define Za :: real where "Za = Zt * ac"
  have b_Za: "16180060634000 \<le> Za \<and> Za \<le> 16180061213000"
    unfolding Za_def by (rule iv_mul [OF b_Zt b_ac]) (simp_all add: power_divide)
  define pf :: real where "pf = p * omf"
  have b_pf: "58282361561 / 10000 \<le> pf \<and> pf \<le> 58282365683 / 10000"
    unfolding pf_def by (rule iv_mul [OF b_p b_omf]) (simp_all add: power_divide)
  define pfa :: real where "pfa = pf * ac"
  have b_pfa: "37173942279000 \<le> pfa \<and> pfa \<le> 37173944909000"
    unfolding pfa_def by (rule iv_mul [OF b_pf b_ac]) (simp_all add: power_divide)
  define theta :: real where "theta = atan2 Za pfa"
  define t :: real where "t = Za / pfa"
  have b_t: "43525271997 / 100000000000 \<le> t \<and> t \<le> 43525276635 / 100000000000"
    unfolding t_def by (rule iv_div [OF b_Za b_pfa]) (simp_all add: power_divide)
  have pfa_pos: "0 < pfa" using b_pfa by linarith
  have theta_eq: "theta = arctan t"
    unfolding theta_def t_def by (rule atan2_pos [OF pfa_pos])
  define t2 :: real where "t2 = t\<^sup>2"
  have b_t2: "18944493024 / 100000000000 \<le> t2 \<and> t2 \<le> 18944497062 / 100000000000"
    unfolding t2_def by (rule iv_pow [OF b_t]) (simp_all add: power_divide)
  define opt :: real where "opt = 1 + t2"
  have b_opt: "11894449302 / 10000000000 \<le> opt \<and> opt \<le> 11894449707 / 10000000000"
    unfolding opt_def using b_t2 by linarith
  define sqt :: real where "sqt = sqrt opt"
  have b_sqt: "10906167659 / 10000000000 \<le> sqt \<and> sqt \<le> 10906167846 / 10000000000"
    unfolding sqt_def by (rule iv_sqrt [OF b_opt]) (simp_all add: power_divide)
  define sinv :: real where "sinv = t / sqt"
  have b_sinv: "39908859474 / 100000000000 \<le> sinv \<and> sinv \<le> 39908864412 / 100000000000"
    unfolding sinv_def by (rule iv_div [OF b_t b_sqt]) (simp_all add: power_divide)
  define one1 :: real where "one1 = 1"
  have b_one1: "1 \<le> one1 \<and> one1 \<le> 1"
    unfolding one1_def by simp
  define cinv :: real where "cinv = one1 / sqt"
  have b_cinv: "91691235099 / 100000000000 \<le> cinv \<and> cinv \<le> 91691236672 / 100000000000"
    unfolding cinv_def by (rule iv_div [OF b_one1 b_sqt]) (simp_all add: power_divide)
  define sth :: real where "sth = sin theta"
  define cth :: real where "cth = cos theta"
  have sth_eq: "sth = sinv"
    unfolding sth_def theta_eq sinv_def sqt_def opt_def t2_def by (rule sin_arctan)
  have cth_eq: "cth = cinv"
    unfolding cth_def theta_eq cinv_def one1_def sqt_def opt_def t2_def by (rule cos_arctan)
  have b_sth: "39908859474 / 100000000000 \<le> sth \<and> sth \<le> 39908864412 / 100000000000" using b_sinv unfolding sth_eq .
  have b_cth: "91691235099 / 100000000000 \<le> cth \<and> cth \<le> 91691236672 / 100000000000" using b_cinv unfolding cth_eq .
  define s3 :: real where "s3 = sth ^ 3"
  have b_s3: "63563521509 / 1000000000000 \<le> s3 \<and> s3 \<le> 63563545105 / 1000000000000"
    unfolding s3_def by (rule iv_pow [OF b_sth]) (simp_all add: power_divide)
  define c3 :: real where "c3 = cth ^ 3"
  have b_c3: "77087412486 / 100000000000 \<le> c3 \<and> c3 \<le> 77087416455 / 100000000000"
    unfolding c3_def by (rule iv_pow [OF b_cth]) (simp_all add: power_divide)
  define K1 :: real where "K1 = ep2 * omf * ac"
  have b_K1: "43542865007 / 1000000 \<le> K1 \<and> K1 \<le> 43542865008 / 1000000"
    unfolding K1_def ep2_def e2c_def omf_def ac_def by (simp add: power_divide)
  define K2 :: real where "K2 = e2c * ac"
  have b_K2: "43394490022 / 1000000 \<le> K2 \<and> K2 \<le> 43394490023 / 1000000"
    unfolding K2_def e2c_def ac_def by (simp add: power_divide)
  define K1s :: real where "K1s = K1 * s3"
  have b_K1s: "27677378364 / 10000000 \<le> K1s \<and> K1s \<le> 2767738864 / 1000000"
    unfolding K1s_def by (rule iv_mul [OF b_K1 b_s3]) (simp_all add: power_divide)
  define K2c :: real where "K2c = K2 * c3"
  have b_K2c: "33451689519 / 1000000 \<le> K2c \<and> K2c \<le> 33451691243 / 1000000"
    unfolding K2c_def by (rule iv_mul [OF b_K2 b_c3]) (simp_all add: power_divide)
  define num :: real where "num = Zt + K1s"
  have b_num: "25395235569 / 10000 \<le> num \<and> num \<le> 25395236487 / 10000"
    unfolding num_def using b_Zt b_K1s by linarith
  define den :: real where "den = p - K2c"
  have b_den: "58147124431 / 10000 \<le> den \<and> den \<le> 58147128583 / 10000"
    unfolding den_def using b_p b_K2c by linarith
  define lat :: real where "lat = atan2 num den"
  define q :: real where "q = num / den"
  have b_q: "43674100833 / 100000000000 \<le> q \<and> q \<le> 43674105531 / 100000000000"
    unfolding q_def by (rule iv_div [OF b_num b_den]) (simp_all add: power_divide)
  have den_pos: "0 < den" using b_den by linarith
  have lat_eq: "lat = arctan q"
    unfolding lat_def q_def by (rule atan2_pos [OF den_pos])
  define la_l :: real where "la_l = 4117732 / 10000000"
  have b_la_l: "4117732 / 10000000 \<le> la_l \<and> la_l \<le> 4117732 / 10000000"
    unfolding la_l_def by simp
  define la_l_p2 :: real where "la_l_p2 = la_l * la_l"
  have b_la_l_p2: "1695571682382 / 10000000000000 \<le> la_l_p2 \<and> la_l_p2 \<le> 1695571682383 / 10000000000000"
    unfolding la_l_p2_def by (rule iv_mul [OF b_la_l b_la_l]) (simp_all add: power_divide)
  define la_l_p3 :: real where "la_l_p3 = la_l_p2 * la_l"
  have b_la_l_p3: "6981909774838 / 100000000000000 \<le> la_l_p3 \<and> la_l_p3 \<le> 6981909774843 / 100000000000000"
    unfolding la_l_p3_def by (rule iv_mul [OF b_la_l_p2 b_la_l]) (simp_all add: power_divide)
  define la_l_p4 :: real where "la_l_p4 = la_l_p2 * la_l_p2"
  have b_la_l_p4: "2874963330095 / 100000000000000 \<le> la_l_p4 \<and> la_l_p4 \<le> 28749633301 / 1000000000000"
    unfolding la_l_p4_def by (rule iv_mul [OF b_la_l_p2 b_la_l_p2]) (simp_all add: power_divide)
  define la_l_p5 :: real where "la_l_p5 = la_l_p3 * la_l_p2"
  have b_la_l_p5: "1183832850316 / 100000000000000 \<le> la_l_p5 \<and> la_l_p5 \<le> 1183832850318 / 100000000000000"
    unfolding la_l_p5_def by (rule iv_mul [OF b_la_l_p3 b_la_l_p2]) (simp_all add: power_divide)
  define la_l_p6 :: real where "la_l_p6 = la_l_p4 * la_l_p2"
  have b_la_l_p6: "4874706410395 / 1000000000000000 \<le> la_l_p6 \<and> la_l_p6 \<le> 4874706410408 / 1000000000000000"
    unfolding la_l_p6_def by (rule iv_mul [OF b_la_l_p4 b_la_l_p2]) (simp_all add: power_divide)
  define la_l_p7 :: real where "la_l_p7 = la_l_p5 * la_l_p2"
  have b_la_l_p7: "2007273457669 / 1000000000000000 \<le> la_l_p7 \<and> la_l_p7 \<le> 2007273457674 / 1000000000000000"
    unfolding la_l_p7_def by (rule iv_mul [OF b_la_l_p5 b_la_l_p2]) (simp_all add: power_divide)
  define la_l_p8 :: real where "la_l_p8 = la_l_p6 * la_l_p2"
  have b_la_l_p8: "8265414149391 / 10000000000000000 \<le> la_l_p8 \<and> la_l_p8 \<le> 8265414149419 / 10000000000000000"
    unfolding la_l_p8_def by (rule iv_mul [OF b_la_l_p6 b_la_l_p2]) (simp_all add: power_divide)
  define la_l_p9 :: real where "la_l_p9 = la_l_p7 * la_l_p2"
  have b_la_l_p9: "340347603362 / 1000000000000000 \<le> la_l_p9 \<and> la_l_p9 \<le> 3403476033632 / 10000000000000000"
    unfolding la_l_p9_def by (rule iv_mul [OF b_la_l_p7 b_la_l_p2]) (simp_all add: power_divide)
  define la_l_p10 :: real where "la_l_p10 = la_l_p8 * la_l_p2"
  have b_la_l_p10: "1401460217486 / 10000000000000000 \<le> la_l_p10 \<and> la_l_p10 \<le> 1401460217493 / 10000000000000000"
    unfolding la_l_p10_def by (rule iv_mul [OF b_la_l_p8 b_la_l_p2]) (simp_all add: power_divide)
  define la_l_p11 :: real where "la_l_p11 = la_l_p9 * la_l_p2"
  have b_la_l_p11: "5770837584271 / 100000000000000000 \<le> la_l_p11 \<and> la_l_p11 \<le> 5770837584296 / 100000000000000000"
    unfolding la_l_p11_def by (rule iv_mul [OF b_la_l_p9 b_la_l_p2]) (simp_all add: power_divide)
  define la_l_p12 :: real where "la_l_p12 = la_l_p10 * la_l_p2"
  have b_la_l_p12: "2376276258754 / 100000000000000000 \<le> la_l_p12 \<and> la_l_p12 \<le> 2376276258768 / 100000000000000000"
    unfolding la_l_p12_def by (rule iv_mul [OF b_la_l_p10 b_la_l_p2]) (simp_all add: power_divide)
  define la_l_p13 :: real where "la_l_p13 = la_l_p11 * la_l_p2"
  have b_la_l_p13: "9784868791515 / 1000000000000000000 \<le> la_l_p13 \<and> la_l_p13 \<le> 9784868791564 / 1000000000000000000"
    unfolding la_l_p13_def by (rule iv_mul [OF b_la_l_p11 b_la_l_p2]) (simp_all add: power_divide)
  define la_l_p14 :: real where "la_l_p14 = la_l_p12 * la_l_p2"
  have b_la_l_p14: "4029146733859 / 1000000000000000000 \<le> la_l_p14 \<and> la_l_p14 \<le> 4029146733887 / 1000000000000000000"
    unfolding la_l_p14_def by (rule iv_mul [OF b_la_l_p12 b_la_l_p2]) (simp_all add: power_divide)
  have nn_la_l: "0 \<le> la_l" using b_la_l by linarith
  define la_ls :: real where "la_ls = sin la_l"
  have b_la_ls: "40023493911 / 100000000000 \<le> la_ls \<and> la_ls \<le> 40023493912 / 100000000000"
    unfolding la_ls_def using sin_chain [OF nn_la_l la_l_p2_def la_l_p3_def la_l_p5_def la_l_p7_def la_l_p9_def la_l_p11_def la_l_p13_def] b_la_l b_la_l_p3 b_la_l_p5 b_la_l_p7 b_la_l_p9 b_la_l_p11 b_la_l_p13 by linarith
  define la_lc :: real where "la_lc = cos la_l"
  have b_la_lc: "9164125673 / 10000000000 \<le> la_lc \<and> la_lc \<le> 91641256731 / 100000000000"
    unfolding la_lc_def using cos_chain [OF nn_la_l la_l_p2_def la_l_p4_def la_l_p6_def la_l_p8_def la_l_p10_def la_l_p12_def la_l_p14_def] b_la_l_p2 b_la_l_p4 b_la_l_p6 b_la_l_p8 b_la_l_p10 b_la_l_p12 b_la_l_p14 by linarith
  define la_u :: real where "la_u = 41177325 / 100000000"
  have b_la_u: "41177325 / 100000000 \<le> la_u \<and> la_u \<le> 41177325 / 100000000"
    unfolding la_u_def by simp
  define la_u_p2 :: real where "la_u_p2 = la_u * la_u"
  have b_la_u_p2: "1695572094155 / 10000000000000 \<le> la_u_p2 \<and> la_u_p2 \<le> 1695572094156 / 10000000000000"
    unfolding la_u_p2_def by (rule iv_mul [OF b_la_u b_la_u]) (simp_all add: power_divide)
  define la_u_p3 :: real where "la_u_p3 = la_u_p2 * la_u"
  have b_la_u_p3: "6981912318195 / 100000000000000 \<le> la_u_p3 \<and> la_u_p3 \<le> 69819123182 / 1000000000000"
    unfolding la_u_p3_def by (rule iv_mul [OF b_la_u_p2 b_la_u]) (simp_all add: power_divide)
  define la_u_p4 :: real where "la_u_p4 = la_u_p2 * la_u_p2"
  have b_la_u_p4: "2874964726477 / 100000000000000 \<le> la_u_p4 \<and> la_u_p4 \<le> 2874964726481 / 100000000000000"
    unfolding la_u_p4_def by (rule iv_mul [OF b_la_u_p2 b_la_u_p2]) (simp_all add: power_divide)
  define la_u_p5 :: real where "la_u_p5 = la_u_p3 * la_u_p2"
  have b_la_u_p5: "1183833569056 / 100000000000000 \<le> la_u_p5 \<and> la_u_p5 \<le> 1183833569059 / 100000000000000"
    unfolding la_u_p5_def by (rule iv_mul [OF b_la_u_p3 b_la_u_p2]) (simp_all add: power_divide)
  define la_u_p6 :: real where "la_u_p6 = la_u_p4 * la_u_p2"
  have b_la_u_p6: "4874709961894 / 1000000000000000 \<le> la_u_p6 \<and> la_u_p6 \<le> 4874709961905 / 1000000000000000"
    unfolding la_u_p6_def by (rule iv_mul [OF b_la_u_p4 b_la_u_p2]) (simp_all add: power_divide)
  define la_u_p7 :: real where "la_u_p7 = la_u_p5 * la_u_p2"
  have b_la_u_p7: "2007275163815 / 1000000000000000 \<le> la_u_p7 \<and> la_u_p7 \<le> 2007275163822 / 1000000000000000"
    unfolding la_u_p7_def by (rule iv_mul [OF b_la_u_p5 b_la_u_p2]) (simp_all add: power_divide)
  define la_u_p8 :: real where "la_u_p8 = la_u_p6 * la_u_p2"
  have b_la_u_p8: "8265422178486 / 10000000000000000 \<le> la_u_p8 \<and> la_u_p8 \<le> 8265422178511 / 10000000000000000"
    unfolding la_u_p8_def by (rule iv_mul [OF b_la_u_p6 b_la_u_p2]) (simp_all add: power_divide)
  define la_u_p9 :: real where "la_u_p9 = la_u_p7 * la_u_p2"
  have b_la_u_p9: "3403479753055 / 10000000000000000 \<le> la_u_p9 \<and> la_u_p9 \<le> 3403479753069 / 10000000000000000"
    unfolding la_u_p9_def by (rule iv_mul [OF b_la_u_p7 b_la_u_p2]) (simp_all add: power_divide)
  define la_u_p10 :: real where "la_u_p10 = la_u_p8 * la_u_p2"
  have b_la_u_p10: "1401461919225 / 10000000000000000 \<le> la_u_p10 \<and> la_u_p10 \<le> 1401461919231 / 10000000000000000"
    unfolding la_u_p10_def by (rule iv_mul [OF b_la_u_p8 b_la_u_p2]) (simp_all add: power_divide)
  define la_u_p11 :: real where "la_u_p11 = la_u_p9 * la_u_p2"
  have b_la_u_p11: "5770845292301 / 100000000000000000 \<le> la_u_p11 \<and> la_u_p11 \<le> 5770845292329 / 100000000000000000"
    unfolding la_u_p11_def by (rule iv_mul [OF b_la_u_p9 b_la_u_p2]) (simp_all add: power_divide)
  define la_u_p12 :: real where "la_u_p12 = la_u_p10 * la_u_p2"
  have b_la_u_p12: "2376279721258 / 100000000000000000 \<le> la_u_p12 \<and> la_u_p12 \<le> 2376279721271 / 100000000000000000"
    unfolding la_u_p12_def by (rule iv_mul [OF b_la_u_p10 b_la_u_p2]) (simp_all add: power_divide)
  define la_u_p13 :: real where "la_u_p13 = la_u_p11 * la_u_p2"
  have b_la_u_p13: "9784884237311 / 1000000000000000000 \<le> la_u_p13 \<and> la_u_p13 \<le> 9784884237365 / 1000000000000000000"
    unfolding la_u_p13_def by (rule iv_mul [OF b_la_u_p11 b_la_u_p2]) (simp_all add: power_divide)
  define la_u_p14 :: real where "la_u_p14 = la_u_p12 * la_u_p2"
  have b_la_u_p14: "4029153583271 / 1000000000000000000 \<le> la_u_p14 \<and> la_u_p14 \<le> 4029153583296 / 1000000000000000000"
    unfolding la_u_p14_def by (rule iv_mul [OF b_la_u_p12 b_la_u_p2]) (simp_all add: power_divide)
  have nn_la_u: "0 \<le> la_u" using b_la_u by linarith
  define la_us :: real where "la_us = sin la_u"
  have b_la_us: "40023498493 / 100000000000 \<le> la_us \<and> la_us \<le> 40023498494 / 100000000000"
    unfolding la_us_def using sin_chain [OF nn_la_u la_u_p2_def la_u_p3_def la_u_p5_def la_u_p7_def la_u_p9_def la_u_p11_def la_u_p13_def] b_la_u b_la_u_p3 b_la_u_p5 b_la_u_p7 b_la_u_p9 b_la_u_p11 b_la_u_p13 by linarith
  define la_uc :: real where "la_uc = cos la_u"
  have b_la_uc: "91641254729 / 100000000000 \<le> la_uc \<and> la_uc \<le> 9164125473 / 10000000000"
    unfolding la_uc_def using cos_chain [OF nn_la_u la_u_p2_def la_u_p4_def la_u_p6_def la_u_p8_def la_u_p10_def la_u_p12_def la_u_p14_def] b_la_u_p2 b_la_u_p4 b_la_u_p6 b_la_u_p8 b_la_u_p10 b_la_u_p12 b_la_u_p14 by linarith
  have b_la_lo: "la_l \<le> arctan q"
    by (rule arctan_lo2 [OF b_q _ _ _ b_la_ls [unfolded la_ls_def] b_la_lc [unfolded la_lc_def]]) (simp_all add: la_l_def)
  have b_la_hi: "arctan q \<le> la_u"
    by (rule arctan_hi2 [OF b_q _ _ _ b_la_us [unfolded la_us_def] b_la_uc [unfolded la_uc_def]]) (simp_all add: la_u_def)
  have b_la0: "4117732 / 10000000 \<le> arctan q \<and> arctan q \<le> 41177325 / 100000000"
    using b_la_lo b_la_hi unfolding la_l_def la_u_def by simp
  have b_lat: "4117732 / 10000000 \<le> lat \<and> lat \<le> 41177325 / 100000000" using b_la0 unfolding lat_eq .
  define lon :: real where "lon = atan2 Yt Xt"
  define r :: real where "r = Yt / Xt"
  have b_r: "16245750227 / 10000000000 \<le> r \<and> r \<le> 1624575263 / 1000000000"
    unfolding r_def by (rule iv_div [OF b_Yt b_Xt]) (simp_all add: power_divide)
  have Xt_pos: "0 < Xt" using b_Xt by linarith
  have lon_eq: "lon = arctan r"
    unfolding lon_def r_def by (rule atan2_pos [OF Xt_pos])
  define lo_l :: real where "lo_l = 101902459 / 100000000"
  have b_lo_l: "101902459 / 100000000 \<le> lo_l \<and> lo_l \<le> 101902459 / 100000000"
    unfolding lo_l_def by simp
  define lo_l_p2 :: real where "lo_l_p2 = lo_l * lo_l"
  have b_lo_l_p2: "1038411115024 / 1000000000000 \<le> lo_l_p2 \<and> lo_l_p2 \<le> 1038411115025 / 1000000000000"
    unfolding lo_l_p2_def by (rule iv_mul [OF b_lo_l b_lo_l]) (simp_all add: power_divide)
  define lo_l_p3 :: real where "lo_l_p3 = lo_l_p2 * lo_l"
  have b_lo_l_p3: "1058166460738 / 1000000000000 \<le> lo_l_p3 \<and> lo_l_p3 \<le> 105816646074 / 100000000000"
    unfolding lo_l_p3_def by (rule iv_mul [OF b_lo_l_p2 b_lo_l]) (simp_all add: power_divide)
  define lo_l_p4 :: real where "lo_l_p4 = lo_l_p2 * lo_l_p2"
  have b_lo_l_p4: "1078297643805 / 1000000000000 \<le> lo_l_p4 \<and> lo_l_p4 \<le> 1078297643808 / 1000000000000"
    unfolding lo_l_p4_def by (rule iv_mul [OF b_lo_l_p2 b_lo_l_p2]) (simp_all add: power_divide)
  define lo_l_p5 :: real where "lo_l_p5 = lo_l_p3 * lo_l_p2"
  have b_lo_l_p5: "1098811814375 / 1000000000000 \<le> lo_l_p5 \<and> lo_l_p5 \<le> 109881181438 / 100000000000"
    unfolding lo_l_p5_def by (rule iv_mul [OF b_lo_l_p3 b_lo_l_p2]) (simp_all add: power_divide)
  define lo_l_p6 :: real where "lo_l_p6 = lo_l_p4 * lo_l_p2"
  have b_lo_l_p6: "1119716258631 / 1000000000000 \<le> lo_l_p6 \<and> lo_l_p6 \<le> 1119716258636 / 1000000000000"
    unfolding lo_l_p6_def by (rule iv_mul [OF b_lo_l_p4 b_lo_l_p2]) (simp_all add: power_divide)
  define lo_l_p7 :: real where "lo_l_p7 = lo_l_p5 * lo_l_p2"
  have b_lo_l_p7: "1141018401366 / 1000000000000 \<le> lo_l_p7 \<and> lo_l_p7 \<le> 1141018401373 / 1000000000000"
    unfolding lo_l_p7_def by (rule iv_mul [OF b_lo_l_p5 b_lo_l_p2]) (simp_all add: power_divide)
  define lo_l_p8 :: real where "lo_l_p8 = lo_l_p6 * lo_l_p2"
  have b_lo_l_p8: "1162725808635 / 1000000000000 \<le> lo_l_p8 \<and> lo_l_p8 \<le> 1162725808642 / 1000000000000"
    unfolding lo_l_p8_def by (rule iv_mul [OF b_lo_l_p6 b_lo_l_p2]) (simp_all add: power_divide)
  define lo_l_p9 :: real where "lo_l_p9 = lo_l_p7 * lo_l_p2"
  have b_lo_l_p9: "1184846190425 / 1000000000000 \<le> lo_l_p9 \<and> lo_l_p9 \<le> 1184846190434 / 1000000000000"
    unfolding lo_l_p9_def by (rule iv_mul [OF b_lo_l_p7 b_lo_l_p2]) (simp_all add: power_divide)
  define lo_l_p10 :: real where "lo_l_p10 = lo_l_p8 * lo_l_p2"
  have b_lo_l_p10: "1207387403411 / 1000000000000 \<le> lo_l_p10 \<and> lo_l_p10 \<le> 1207387403421 / 1000000000000"
    unfolding lo_l_p10_def by (rule iv_mul [OF b_lo_l_p8 b_lo_l_p2]) (simp_all add: power_divide)
  define lo_l_p11 :: real where "lo_l_p11 = lo_l_p9 * lo_l_p2"
  have b_lo_l_p11: "1230357453731 / 1000000000000 \<le> lo_l_p11 \<and> lo_l_p11 \<le> 1230357453742 / 1000000000000"
    unfolding lo_l_p11_def by (rule iv_mul [OF b_lo_l_p9 b_lo_l_p2]) (simp_all add: power_divide)
  define lo_l_p12 :: real where "lo_l_p12 = lo_l_p10 * lo_l_p2"
  have b_lo_l_p12: "1253764499841 / 1000000000000 \<le> lo_l_p12 \<and> lo_l_p12 \<le> 1253764499854 / 1000000000000"
    unfolding lo_l_p12_def by (rule iv_mul [OF b_lo_l_p10 b_lo_l_p2]) (simp_all add: power_divide)
  define lo_l_p13 :: real where "lo_l_p13 = lo_l_p11 * lo_l_p2"
  have b_lo_l_p13: "1277616855406 / 1000000000000 \<le> lo_l_p13 \<and> lo_l_p13 \<le> 127761685542 / 100000000000"
    unfolding lo_l_p13_def by (rule iv_mul [OF b_lo_l_p11 b_lo_l_p2]) (simp_all add: power_divide)
  define lo_l_p14 :: real where "lo_l_p14 = lo_l_p12 * lo_l_p2"
  have b_lo_l_p14: "1301922992257 / 1000000000000 \<le> lo_l_p14 \<and> lo_l_p14 \<le> 1301922992273 / 1000000000000"
    unfolding lo_l_p14_def by (rule iv_mul [OF b_lo_l_p12 b_lo_l_p2]) (simp_all add: power_divide)
  have nn_lo_l: "0 \<le> lo_l" using b_lo_l by linarith
  define lo_ls :: real where "lo_ls = sin lo_l"
  have b_lo_ls: "85159711988 / 100000000000 \<le> lo_ls \<and> lo_ls \<le> 8515971203 / 10000000000"
    unfolding lo_ls_def using sin_chain [OF nn_lo_l lo_l_p2_def lo_l_p3_def lo_l_p5_def lo_l_p7_def lo_l_p9_def lo_l_p11_def lo_l_p13_def] b_lo_l b_lo_l_p3 b_lo_l_p5 b_lo_l_p7 b_lo_l_p9 b_lo_l_p11 b_lo_l_p13 by linarith
  define lo_lc :: real where "lo_lc = cos lo_l"
  have b_lo_lc: "52419685683 / 100000000000 \<le> lo_lc \<and> lo_lc \<le> 52419685687 / 100000000000"
    unfolding lo_lc_def using cos_chain [OF nn_lo_l lo_l_p2_def lo_l_p4_def lo_l_p6_def lo_l_p8_def lo_l_p10_def lo_l_p12_def lo_l_p14_def] b_lo_l_p2 b_lo_l_p4 b_lo_l_p6 b_lo_l_p8 b_lo_l_p10 b_lo_l_p12 b_lo_l_p14 by linarith
  define lo_u :: real where "lo_u = 101902466 / 100000000"
  have b_lo_u: "101902466 / 100000000 \<le> lo_u \<and> lo_u \<le> 101902466 / 100000000"
    unfolding lo_u_def by simp
  define lo_u_p2 :: real where "lo_u_p2 = lo_u * lo_u"
  have b_lo_u_p2: "1038411257688 / 1000000000000 \<le> lo_u_p2 \<and> lo_u_p2 \<le> 1038411257689 / 1000000000000"
    unfolding lo_u_p2_def by (rule iv_mul [OF b_lo_u b_lo_u]) (simp_all add: power_divide)
  define lo_u_p3 :: real where "lo_u_p3 = lo_u_p2 * lo_u"
  have b_lo_u_p3: "1058166678805 / 1000000000000 \<le> lo_u_p3 \<and> lo_u_p3 \<le> 1058166678807 / 1000000000000"
    unfolding lo_u_p3_def by (rule iv_mul [OF b_lo_u_p2 b_lo_u]) (simp_all add: power_divide)
  define lo_u_p4 :: real where "lo_u_p4 = lo_u_p2 * lo_u_p2"
  have b_lo_u_p4: "1078297940093 / 1000000000000 \<le> lo_u_p4 \<and> lo_u_p4 \<le> 1078297940096 / 1000000000000"
    unfolding lo_u_p4_def by (rule iv_mul [OF b_lo_u_p2 b_lo_u_p2]) (simp_all add: power_divide)
  define lo_u_p5 :: real where "lo_u_p5 = lo_u_p3 * lo_u_p2"
  have b_lo_u_p5: "1098812191781 / 1000000000000 \<le> lo_u_p5 \<and> lo_u_p5 \<le> 1098812191785 / 1000000000000"
    unfolding lo_u_p5_def by (rule iv_mul [OF b_lo_u_p3 b_lo_u_p2]) (simp_all add: power_divide)
  define lo_u_p6 :: real where "lo_u_p6 = lo_u_p4 * lo_u_p2"
  have b_lo_u_p6: "1119716720134 / 1000000000000 \<le> lo_u_p6 \<and> lo_u_p6 \<le> 1119716720139 / 1000000000000"
    unfolding lo_u_p6_def by (rule iv_mul [OF b_lo_u_p4 b_lo_u_p2]) (simp_all add: power_divide)
  define lo_u_p7 :: real where "lo_u_p7 = lo_u_p5 * lo_u_p2"
  have b_lo_u_p7: "114101895003 / 100000000000 \<le> lo_u_p7 \<and> lo_u_p7 \<le> 1141018950036 / 1000000000000"
    unfolding lo_u_p7_def by (rule iv_mul [OF b_lo_u_p5 b_lo_u_p2]) (simp_all add: power_divide)
  define lo_u_p8 :: real where "lo_u_p8 = lo_u_p6 * lo_u_p2"
  have b_lo_u_p8: "1162726447608 / 1000000000000 \<le> lo_u_p8 \<and> lo_u_p8 \<le> 1162726447615 / 1000000000000"
    unfolding lo_u_p8_def by (rule iv_mul [OF b_lo_u_p6 b_lo_u_p2]) (simp_all add: power_divide)
  define lo_u_p9 :: real where "lo_u_p9 = lo_u_p7 * lo_u_p2"
  have b_lo_u_p9: "1184846922946 / 1000000000000 \<le> lo_u_p9 \<and> lo_u_p9 \<le> 1184846922954 / 1000000000000"
    unfolding lo_u_p9_def by (rule iv_mul [OF b_lo_u_p7 b_lo_u_p2]) (simp_all add: power_divide)
  define lo_u_p10 :: real where "lo_u_p10 = lo_u_p8 * lo_u_p2"
  have b_lo_u_p10: "1207388232807 / 1000000000000 \<le> lo_u_p10 \<and> lo_u_p10 \<le> 1207388232817 / 1000000000000"
    unfolding lo_u_p10_def by (rule iv_mul [OF b_lo_u_p8 b_lo_u_p2]) (simp_all add: power_divide)
  define lo_u_p11 :: real where "lo_u_p11 = lo_u_p9 * lo_u_p2"
  have b_lo_u_p11: "1230358383424 / 1000000000000 \<le> lo_u_p11 \<and> lo_u_p11 \<le> 1230358383434 / 1000000000000"
    unfolding lo_u_p11_def by (rule iv_mul [OF b_lo_u_p9 b_lo_u_p2]) (simp_all add: power_divide)
  define lo_u_p12 :: real where "lo_u_p12 = lo_u_p10 * lo_u_p2"
  have b_lo_u_p12: "1253765533346 / 1000000000000 \<le> lo_u_p12 \<and> lo_u_p12 \<le> 1253765533359 / 1000000000000"
    unfolding lo_u_p12_def by (rule iv_mul [OF b_lo_u_p10 b_lo_u_p2]) (simp_all add: power_divide)
  define lo_u_p13 :: real where "lo_u_p13 = lo_u_p11 * lo_u_p2"
  have b_lo_u_p13: "1277617996338 / 1000000000000 \<le> lo_u_p13 \<and> lo_u_p13 \<le> 127761799635 / 100000000000"
    unfolding lo_u_p13_def by (rule iv_mul [OF b_lo_u_p11 b_lo_u_p2]) (simp_all add: power_divide)
  define lo_u_p14 :: real where "lo_u_p14 = lo_u_p12 * lo_u_p2"
  have b_lo_u_p14: "1301924244327 / 1000000000000 \<le> lo_u_p14 \<and> lo_u_p14 \<le> 1301924244343 / 1000000000000"
    unfolding lo_u_p14_def by (rule iv_mul [OF b_lo_u_p12 b_lo_u_p2]) (simp_all add: power_divide)
  have nn_lo_u: "0 \<le> lo_u" using b_lo_u by linarith
  define lo_us :: real where "lo_us = sin lo_u"
  have b_lo_us: "85159715657 / 100000000000 \<le> lo_us \<and> lo_us \<le> 85159715699 / 100000000000"
    unfolding lo_us_def using sin_chain [OF nn_lo_u lo_u_p2_def lo_u_p3_def lo_u_p5_def lo_u_p7_def lo_u_p9_def lo_u_p11_def lo_u_p13_def] b_lo_u b_lo_u_p3 b_lo_u_p5 b_lo_u_p7 b_lo_u_p9 b_lo_u_p11 b_lo_u_p13 by linarith
  define lo_uc :: real where "lo_uc = cos lo_u"
  have b_lo_uc: "52419679722 / 100000000000 \<le> lo_uc \<and> lo_uc \<le> 52419679726 / 100000000000"
    unfolding lo_uc_def using cos_chain [OF nn_lo_u lo_u_p2_def lo_u_p4_def lo_u_p6_def lo_u_p8_def lo_u_p10_def lo_u_p12_def lo_u_p14_def] b_lo_u_p2 b_lo_u_p4 b_lo_u_p6 b_lo_u_p8 b_lo_u_p10 b_lo_u_p12 b_lo_u_p14 by linarith
  have b_lo_lo: "lo_l \<le> arctan r"
    by (rule arctan_lo2 [OF b_r _ _ _ b_lo_ls [unfolded lo_ls_def] b_lo_lc [unfolded lo_lc_def]]) (simp_all add: lo_l_def)
  have b_lo_hi: "arctan r \<le> lo_u"
    by (rule arctan_hi2 [OF b_r _ _ _ b_lo_us [unfolded lo_us_def] b_lo_uc [unfolded lo_uc_def]]) (simp_all add: lo_u_def)
  have b_lo0: "101902459 / 100000000 \<le> arctan r \<and> arctan r \<le> 101902466 / 100000000"
    using b_lo_lo b_lo_hi unfolding lo_l_def lo_u_def by simp
  have b_lon: "101902459 / 100000000 \<le> lon \<and> lon \<le> 101902466 / 100000000" using b_lo0 unfolding lon_eq .
  define hh :: real where "hh = p / cos lat - ac / sqrt (1 - e2c * sin lat * sin lat)"
  have eq: "ecefToGeodetic Xt Yt Zt 6378249.145 (1 / 293.465) = (rad2deg lat, rad2deg lon, hh)"
    unfolding hh_def lon_def lat_def num_def den_def K1s_def K2c_def K1_def K2_def s3_def c3_def
      sth_def cth_def theta_def Za_def pfa_def pf_def p_def pp_def XX_def YY_def ac_def omf_def
      ep2_def e2c_def
    by (simp only: ecefToGeodetic_def Let_def)
  have "4117732 / 10000000 \<le> deg2rad (rad2deg lat) \<and> deg2rad (rad2deg lat) \<le> 41177325 / 100000000"
    "101902459 / 100000000 \<le> deg2rad (rad2deg lon) \<and> deg2rad (rad2deg lon) \<le> 101902466 / 100000000"
    unfolding deg2rad_rad2deg using b_lat b_lon by blast+
  then show ?thesis using eq by blast
qed

lemma psd93ToUTM_reference:
  assumes b_lat: "4117732 / 10000000 \<le> deg2rad lat \<and> deg2rad lat \<le> 41177325 / 100000000"
    and b_lon: "101902459 / 100000000 \<le> deg2rad lon \<and> deg2rad lon \<le> 101902466 / 100000000"
  shows "(64140499814 / 100000 \<le> utm_easting (psd93ToUTM lat lon 40) \<and> utm_easting (psd93ToUTM lat lon 40) \<le> 64140559599 / 100000)
    \<and> (26096194726 / 10000 \<le> utm_northing (psd93ToUTM lat lon 40) \<and> utm_northing (psd93ToUTM lat lon 40) \<le> 26096197994 / 10000)"
proof -
  note b_pi = pi_bounds
  define phi :: real where "phi = deg2rad lat"
  have b_phi: "4117732 / 10000000 \<le> phi \<and> phi \<le> 41177325 / 100000000" using b_lat unfolding phi_def .
  define lam :: real where "lam = deg2rad lon"
  have b_lam: "101902459 / 100000000 \<le> lam \<and> lam \<le> 101902466 / 100000000" using b_lon unfolding lam_def .
  define lon0 :: real where "lon0 = deg2rad (of_int (6 * 40 - 183))"
  have b_lon0: "99483765666 / 100000000000 \<le> lon0 \<and> lon0 \<le> 99483768834 / 100000000000"
    unfolding lon0_def deg2rad_def using b_pi by simp
  define e2c :: real where "e2c = 2 * (1 / 293.465) - 1 / 293.465 * (1 / 293.465)"
  have b_e2c: "68035112828 / 10000000000000 \<le> e2c \<and> e2c \<le> 68035112829 / 10000000000000"
    unfolding e2c_def by (simp add: power_divide)
  define ac :: real where "ac = 6378249.145"
  have b_ac: "6378249145 / 1000 \<le> ac \<and> ac \<le> 6378249145 / 1000"
    unfolding ac_def by simp
  define k0 :: real where "k0 = 0.9996"
  have b_k0: "9996 / 10000 \<le> k0 \<and> k0 \<le> 9996 / 10000"
    unfolding k0_def by simp
  define phi_p2 :: real where "phi_p2 = phi * phi"
  have b_phi_p2: "1695571682382 / 10000000000000 \<le> phi_p2 \<and> phi_p2 \<le> 1695572094156 / 10000000000000"
    unfolding phi_p2_def by (rule iv_mul [OF b_phi b_phi]) (simp_all add: power_divide)
  define phi_p3 :: real where "phi_p3 = phi_p2 * phi"
  have b_phi_p3: "6981909774838 / 100000000000000 \<le> phi_p3 \<and> phi_p3 \<le> 69819123182 / 1000000000000"
    unfolding phi_p3_def by (rule iv_mul [OF b_phi_p2 b_phi]) (simp_all add: power_divide)
  define phi_p4 :: real where "phi_p4 = phi_p2 * phi_p2"
  have b_phi_p4: "2874963330095 / 100000000000000 \<le> phi_p4 \<and> phi_p4 \<le> 2874964726481 / 100000000000000"
    unfolding phi_p4_def by (rule iv_mul [OF b_phi_p2 b_phi_p2]) (simp_all add: power_divide)
  define phi_p5 :: real where "phi_p5 = phi_p3 * phi_p2"
  have b_phi_p5: "1183832850316 / 100000000000000 \<le> phi_p5 \<and> phi_p5 \<le> 1183833569059 / 100000000000000"
    unfolding phi_p5_def by (rule iv_mul [OF b_phi_p3 b_phi_p2]) (simp_all add: power_divide)
  define phi_p6 :: real where "phi_p6 = phi_p4 * phi_p2"
  have b_phi_p6: "4874706410395 / 1000000000000000 \<le> phi_p6 \<and> phi_p6 \<le> 4874709961905 / 1000000000000000"
    unfolding phi_p6_def by (rule iv_mul [OF b_phi_p4 b_phi_p2]) (simp_all add: power_divide)
  define phi_p7 :: real where "phi_p7 = phi_p5 * phi_p2"
  have b_phi_p7: "2007273457669 / 1000000000000000 \<le> phi_p7 \<and> phi_p7 \<le> 2007275163822 / 1000000000000000"
    unfolding phi_p7_def by (rule iv_mul [OF b_phi_p5 b_phi_p2]) (simp_all add: power_divide)
  define phi_p8 :: real where "phi_p8 = phi_p6 * phi_p2"
  have b_phi_p8: "8265414149391 / 10000000000000000 \<le> phi_p8 \<and> phi_p8 \<le> 8265422178511 / 10000000000000000"
    unfolding phi_p8_def by (rule iv_mul [OF b_phi_p6 b_phi_p2]) (simp_all add: power_divide)
  define phi_p9 :: real where "phi_p9 = phi_p7 * phi_p2"
  have b_phi_p9: "340347603362 / 1000000000000000 \<le> phi_p9 \<and> phi_p9 \<le> 3403479753069 / 10000000000000000"
    unfolding phi_p9_def by (rule iv_mul [OF b_phi_p7 b_phi_p2]) (simp_all add: power_divide)
  define phi_p10 :: real where "phi_p10 = phi_p8 * phi_p2"
  have b_phi_p10: "1401460217486 / 10000000000000000 \<le> phi_p10 \<and> phi_p10 \<le> 1401461919231 / 10000000000000000"
    unfolding phi_p10_def by (rule iv_mul [OF b_phi_p8 b_phi_p2]) (simp_all add: power_divide)
  define phi_p11 :: real where "phi_p11 = phi_p9 * phi_p2"
  have b_phi_p11: "5770837584271 / 100000000000000000 \<le> phi_p11 \<and> phi_p11 \<le> 5770845292329 / 100000000000000000"
    unfolding phi_p11_def by (rule iv_mul [OF b_phi_p9 b_phi_p2]) (simp_all add: power_divide)
  define phi_p12 :: real where "phi_p12 = phi_p10 * phi_p2"
  have b_phi_p12: "2376276258754 / 100000000000000000 \<le> phi_p12 \<and> phi_p12 \<le> 2376279721271 / 100000000000000000"
    unfolding phi_p12_def by (rule iv_mul [OF b_phi_p10 b_phi_p2]) (simp_all add: power_divide)
  define phi_p13 :: real where "phi_p13 = phi_p11 * phi_p2"
  have b_phi_p13: "9784868791515 / 1000000000000000000 \<le> phi_p13 \<and> phi_p13 \<le> 9784884237365 / 1000000000000000000"
    unfolding phi_p13_def by (rule iv_mul [OF b_phi_p11 b_phi_p2]) (simp_all add: power_divide)
  define phi_p14 :: real where "phi_p14 = phi_p12 * phi_p2"
  have b_phi_p14: "4029146733859 / 1000000000000000000 \<le> phi_p14 \<and> phi_p14 \<le> 4029153583296 / 1000000000000000000"
    unfolding phi_p14_def by (rule iv_mul [OF b_phi_p12 b_phi_p2]) (simp_all add: power_divide)
  have nn_phi: "0 \<le> phi" using b_phi by linarith
  define sphi :: real where "sphi = sin phi"
  have b_sphi: "40023493487 / 100000000000 \<le> sphi \<and> sphi \<le> 40023498918 / 100000000000"
    unfolding sphi_def using sin_chain [OF nn_phi phi_p2_def phi_p3_def phi_p5_def phi_p7_def phi_p9_def phi_p11_def phi_p13_def] b_phi b_phi_p3 b_phi_p5 b_phi_p7 b_phi_p9 b_phi_p11 b_phi_p13 by linarith
  define cphi :: real where "cphi = cos phi"
  have b_cphi: "91641254671 / 100000000000 \<le> cphi \<and> cphi \<le> 91641256789 / 100000000000"
    unfolding cphi_def using cos_chain [OF nn_phi phi_p2_def phi_p4_def phi_p6_def phi_p8_def phi_p10_def phi_p12_def phi_p14_def] b_phi_p2 b_phi_p4 b_phi_p6 b_phi_p8 b_phi_p10 b_phi_p12 b_phi_p14 by linarith
  define e2s :: real where "e2s = e2c * sphi"
  have b_e2s: "27230028951 / 10000000000000 \<le> e2s \<and> e2s \<le> 27230032647 / 10000000000000"
    unfolding e2s_def by (rule iv_mul [OF b_e2c b_sphi]) (simp_all add: power_divide)
  define e2ss :: real where "e2ss = e2s * sphi"
  have b_e2ss: "10898408863 / 10000000000000 \<le> e2ss \<and> e2ss \<le> 10898411822 / 10000000000000"
    unfolding e2ss_def by (rule iv_mul [OF b_e2s b_sphi]) (simp_all add: power_divide)
  define w :: real where "w = 1 - e2ss"
  have b_w: "99891015881 / 100000000000 \<le> w \<and> w \<le> 99891015912 / 100000000000"
    unfolding w_def using b_e2ss by linarith
  define sq :: real where "sq = sqrt w"
  have b_sq: "99945493085 / 100000000000 \<le> sq \<and> sq \<le> 99945493101 / 100000000000"
    unfolding sq_def by (rule iv_sqrt [OF b_w]) (simp_all add: power_divide)
  define N :: real where "N = ac / sq"
  have b_N: "63817276268 / 10000 \<le> N \<and> N \<le> 63817276279 / 10000"
    unfolding N_def by (rule iv_div [OF b_ac b_sq]) (simp_all add: power_divide)
  define tn :: real where "tn = tan phi"
  define tq :: real where "tq = sphi / cphi"
  have b_tq: "43674099296 / 100000000000 \<le> tq \<and> tq \<le> 43674106233 / 100000000000"
    unfolding tq_def by (rule iv_div [OF b_sphi b_cphi]) (simp_all add: power_divide)
  have tn_eq: "tn = tq" unfolding tn_def tq_def sphi_def cphi_def by (simp add: tan_def)
  have b_tn: "43674099296 / 100000000000 \<le> tn \<and> tn \<le> 43674106233 / 100000000000" using b_tq unfolding tn_eq .
  define T :: real where "T = tn * tn"
  have b_T: "19074269493 / 100000000000 \<le> T \<and> T \<le> 19074275553 / 100000000000"
    unfolding T_def by (rule iv_mul [OF b_tn b_tn]) (simp_all add: power_divide)
  define ep2 :: real where "ep2 = e2c / (1 - e2c)"
  have b_ep2: "68501161251 / 10000000000000 \<le> ep2 \<and> ep2 \<le> 68501161252 / 10000000000000"
    unfolding ep2_def e2c_def by (simp add: power_divide)
  define Cc :: real where "Cc = ep2 * cphi"
  have b_Cc: "62775323634 / 10000000000000 \<le> Cc \<and> Cc \<le> 62775325087 / 10000000000000"
    unfolding Cc_def by (rule iv_mul [OF b_ep2 b_cphi]) (simp_all add: power_divide)
  define C :: real where "C = Cc * cphi"
  have b_C: "57528094201 / 10000000000000 \<le> C \<and> C \<le> 57528096864 / 10000000000000"
    unfolding C_def by (rule iv_mul [OF b_Cc b_cphi]) (simp_all add: power_divide)
  define dl :: real where "dl = lam - lon0"
  have b_dl: "2418690166 / 100000000000 \<le> dl \<and> dl \<le> 2418700334 / 100000000000"
    unfolding dl_def using b_lam b_lon0 by linarith
  define A :: real where "A = cphi * dl"
  have b_A: "22165180147 / 1000000000000 \<le> A \<and> A \<le> 22165273841 / 1000000000000"
    unfolding A_def by (rule iv_mul [OF b_cphi b_dl]) (simp_all add: power_divide)
  define m1 :: real where "m1 = 1 - e2c / 4 - (3 * e2c * e2c) / 64 - (5 * e2c * e2c * e2c) / 256"
  have b_m1: "99829694628 / 100000000000 \<le> m1 \<and> m1 \<le> 99829694629 / 100000000000"
    unfolding m1_def e2c_def by (simp add: power_divide)
  define m2 :: real where "m2 = (3 * e2c) / 8 + (3 * e2c * e2c) / 32 + (45 * e2c * e2c * e2c) / 1024"
  have b_m2: "25556700483 / 10000000000000 \<le> m2 \<and> m2 \<le> 25556700484 / 10000000000000"
    unfolding m2_def e2c_def by (simp add: power_divide)
  define m3 :: real where "m3 = (15 * e2c * e2c) / 256 + (45 * e2c * e2c * e2c) / 1024"
  have b_m3: "27260130045 / 10000000000000000 \<le> m3 \<and> m3 \<le> 27260130046 / 10000000000000000"
    unfolding m3_def e2c_def by (simp add: power_divide)
  define m4 :: real where "m4 = (35 * e2c * e2c * e2c) / 3072"
  have b_m4: "35879481721 / 10000000000000000000 \<le> m4 \<and> m4 \<le> 35879481722 / 10000000000000000000"
    unfolding m4_def e2c_def by (simp add: power_divide)
  define m1p :: real where "m1p = m1 * phi"
  have b_m1p: "41107192811 / 100000000000 \<le> m1p \<and> m1p \<le> 41107197804 / 100000000000"
    unfolding m1p_def by (rule iv_mul [OF b_m1 b_phi]) (simp_all add: power_divide)
  define phi2 :: real where "phi2 = 2 * phi"
  have b_phi2: "8235464 / 10000000 \<le> phi2 \<and> phi2 \<le> 8235465 / 10000000"
    unfolding phi2_def using b_phi by linarith
  define phi2_p2 :: real where "phi2_p2 = phi2 * phi2"
  have b_phi2_p2: "6782286729529 / 10000000000000 \<le> phi2_p2 \<and> phi2_p2 \<le> 6782288376623 / 10000000000000"
    unfolding phi2_p2_def by (rule iv_mul [OF b_phi2 b_phi2]) (simp_all add: power_divide)
  define phi2_p3 :: real where "phi2_p3 = phi2_p2 * phi2"
  have b_phi2_p3: "5585527819871 / 10000000000000 \<le> phi2_p3 \<and> phi2_p3 \<le> 5585529854559 / 10000000000000"
    unfolding phi2_p3_def by (rule iv_mul [OF b_phi2_p2 b_phi2]) (simp_all add: power_divide)
  define phi2_p4 :: real where "phi2_p4 = phi2_p2 * phi2_p2"
  have b_phi2_p4: "4599941328154 / 10000000000000 \<le> phi2_p4 \<and> phi2_p4 \<le> 4599943562368 / 10000000000000"
    unfolding phi2_p4_def by (rule iv_mul [OF b_phi2_p2 b_phi2_p2]) (simp_all add: power_divide)
  define phi2_p5 :: real where "phi2_p5 = phi2_p3 * phi2_p2"
  have b_phi2_p5: "3788265121012 / 10000000000000 \<le> phi2_p5 \<and> phi2_p5 \<le> 3788267420986 / 10000000000000"
    unfolding phi2_p5_def by (rule iv_mul [OF b_phi2_p3 b_phi2_p2]) (simp_all add: power_divide)
  define phi2_p6 :: real where "phi2_p6 = phi2_p4 * phi2_p2"
  have b_phi2_p6: "3119812102655 / 10000000000000 \<le> phi2_p6 \<and> phi2_p6 \<le> 3119814375618 / 10000000000000"
    unfolding phi2_p6_def by (rule iv_mul [OF b_phi2_p4 b_phi2_p2]) (simp_all add: power_divide)
  define phi2_p7 :: real where "phi2_p7 = phi2_p5 * phi2_p2"
  have b_phi2_p7: "2569310025817 / 10000000000000 \<le> phi2_p7 \<and> phi2_p7 \<le> 256931220969 / 1000000000000"
    unfolding phi2_p7_def by (rule iv_mul [OF b_phi2_p5 b_phi2_p2]) (simp_all add: power_divide)
  define phi2_p8 :: real where "phi2_p8 = phi2_p6 * phi2_p2"
  have b_phi2_p8: "2115946022246 / 10000000000000 \<le> phi2_p8 \<and> phi2_p8 \<le> 2115948077698 / 10000000000000"
    unfolding phi2_p8_def by (rule iv_mul [OF b_phi2_p6 b_phi2_p2]) (simp_all add: power_divide)
  define phi2_p9 :: real where "phi2_p9 = phi2_p7 * phi2_p2"
  have b_phi2_p9: "1742579729214 / 10000000000000 \<le> phi2_p9 \<and> phi2_p9 \<le> 174258163357 / 1000000000000"
    unfolding phi2_p9_def by (rule iv_mul [OF b_phi2_p7 b_phi2_p2]) (simp_all add: power_divide)
  define phi2_p10 :: real where "phi2_p10 = phi2_p8 * phi2_p2"
  have b_phi2_p10: "1435095262707 / 10000000000000 \<le> phi2_p10 \<and> phi2_p10 \<le> 1435097005291 / 10000000000000"
    unfolding phi2_p10_def by (rule iv_mul [OF b_phi2_p8 b_phi2_p2]) (simp_all add: power_divide)
  define phi2_p11 :: real where "phi2_p11 = phi2_p9 * phi2_p2"
  have b_phi2_p11: "1181867537259 / 10000000000000 \<le> phi2_p11 \<and> phi2_p11 \<le> 1181869115868 / 10000000000000"
    unfolding phi2_p11_def by (rule iv_mul [OF b_phi2_p9 b_phi2_p2]) (simp_all add: power_divide)
  define phi2_p12 :: real where "phi2_p12 = phi2_p10 * phi2_p2"
  have b_phi2_p12: "9733227555867 / 100000000000000 \<le> phi2_p12 \<and> phi2_p12 \<le> 9733241738312 / 100000000000000"
    unfolding phi2_p12_def by (rule iv_mul [OF b_phi2_p10 b_phi2_p2]) (simp_all add: power_divide)
  define phi2_p13 :: real where "phi2_p13 = phi2_p11 * phi2_p2"
  have b_phi2_p13: "8015764514012 / 100000000000000 \<le> phi2_p13 \<and> phi2_p13 \<le> 8015777167242 / 100000000000000"
    unfolding phi2_p13_def by (rule iv_mul [OF b_phi2_p11 b_phi2_p2]) (simp_all add: power_divide)
  have nn_phi2: "0 \<le> phi2" using b_phi2 by linarith
  define s2phi :: real where "s2phi = sin phi2"
  have b_s2phi: "73356062217 / 100000000000 \<le> s2phi \<and> s2phi \<le> 73356075808 / 100000000000"
    unfolding s2phi_def using sin_chain [OF nn_phi2 phi2_p2_def phi2_p3_def phi2_p5_def phi2_p7_def phi2_p9_def phi2_p11_def phi2_p13_def] b_phi2 b_phi2_p3 b_phi2_p5 b_phi2_p7 b_phi2_p9 b_phi2_p11 b_phi2_p13 by linarith
  define m2s :: real where "m2s = m2 * s2phi"
  have b_m2s: "18747389106 / 10000000000000 \<le> m2s \<and> m2s \<le> 18747392582 / 10000000000000"
    unfolding m2s_def by (rule iv_mul [OF b_m2 b_s2phi]) (simp_all add: power_divide)
  define phi4 :: real where "phi4 = 4 * phi"
  have b_phi4: "16470928 / 10000000 \<le> phi4 \<and> phi4 \<le> 1647093 / 1000000"
    unfolding phi4_def using b_phi by linarith
  define phi4_p2 :: real where "phi4_p2 = phi4 * phi4"
  have b_phi4_p2: "2712914691811 / 1000000000000 \<le> phi4_p2 \<and> phi4_p2 \<le> 2712915350649 / 1000000000000"
    unfolding phi4_p2_def by (rule iv_mul [OF b_phi4 b_phi4]) (simp_all add: power_divide)
  define phi4_p3 :: real where "phi4_p3 = phi4_p2 * phi4"
  have b_phi4_p3: "4468422255896 / 1000000000000 \<le> phi4_p3 \<and> phi4_p3 \<le> 4468423883647 / 1000000000000"
    unfolding phi4_p3_def by (rule iv_mul [OF b_phi4_p2 b_phi4]) (simp_all add: power_divide)
  define phi4_p4 :: real where "phi4_p4 = phi4_p2 * phi4_p2"
  have b_phi4_p4: "7359906125043 / 1000000000000 \<le> phi4_p4 \<and> phi4_p4 \<le> 7359909699787 / 1000000000000"
    unfolding phi4_p4_def by (rule iv_mul [OF b_phi4_p2 b_phi4_p2]) (simp_all add: power_divide)
  define phi4_p5 :: real where "phi4_p5 = phi4_p3 * phi4_p2"
  have b_phi4_p5: "1212244838723 / 100000000000 \<le> phi4_p5 \<and> phi4_p5 \<le> 1212245574716 / 100000000000"
    unfolding phi4_p5_def by (rule iv_mul [OF b_phi4_p3 b_phi4_p2]) (simp_all add: power_divide)
  define phi4_p6 :: real where "phi4_p6 = phi4_p4 * phi4_p2"
  have b_phi4_p6: "1996679745697 / 100000000000 \<le> phi4_p6 \<and> phi4_p6 \<le> 1996681200395 / 100000000000"
    unfolding phi4_p6_def by (rule iv_mul [OF b_phi4_p4 b_phi4_p2]) (simp_all add: power_divide)
  define phi4_p7 :: real where "phi4_p7 = phi4_p5 * phi4_p2"
  have b_phi4_p7: "3288716833043 / 100000000000 \<le> phi4_p7 \<and> phi4_p7 \<le> 3288719628404 / 100000000000"
    unfolding phi4_p7_def by (rule iv_mul [OF b_phi4_p5 b_phi4_p2]) (simp_all add: power_divide)
  define phi4_p8 :: real where "phi4_p8 = phi4_p6 * phi4_p2"
  have b_phi4_p8: "5416821816942 / 100000000000 \<le> phi4_p8 \<and> phi4_p8 \<le> 5416827078904 / 100000000000"
    unfolding phi4_p8_def by (rule iv_mul [OF b_phi4_p6 b_phi4_p2]) (simp_all add: power_divide)
  define phi4_p9 :: real where "phi4_p9 = phi4_p7 * phi4_p2"
  have b_phi4_p9: "8922008213568 / 100000000000 \<le> phi4_p9 \<and> phi4_p9 \<le> 8922017963878 / 100000000000"
    unfolding phi4_p9_def by (rule iv_mul [OF b_phi4_p7 b_phi4_p2]) (simp_all add: power_divide)
  define phi4_p10 :: real where "phi4_p10 = phi4_p8 * phi4_p2"
  have b_phi4_p10: "146953754901 / 1000000000 \<le> phi4_p10 \<and> phi4_p10 \<le> 1469539333417 / 10000000000"
    unfolding phi4_p10_def by (rule iv_mul [OF b_phi4_p8 b_phi4_p2]) (simp_all add: power_divide)
  define phi4_p11 :: real where "phi4_p11 = phi4_p9 * phi4_p2"
  have b_phi4_p11: "2420464716304 / 10000000000 \<le> phi4_p11 \<and> phi4_p11 \<le> 2420467949298 / 10000000000"
    unfolding phi4_p11_def by (rule iv_mul [OF b_phi4_p9 b_phi4_p2]) (simp_all add: power_divide)
  define phi4_p12 :: real where "phi4_p12 = phi4_p10 * phi4_p2"
  have b_phi4_p12: "3986730006877 / 10000000000 \<le> phi4_p12 \<and> phi4_p12 \<le> 398673581601 / 1000000000"
    unfolding phi4_p12_def by (rule iv_mul [OF b_phi4_p10 b_phi4_p2]) (simp_all add: power_divide)
  define phi4_p13 :: real where "phi4_p13 = phi4_p11 * phi4_p2"
  have b_phi4_p13: "6566514289871 / 10000000000 \<le> phi4_p13 \<and> phi4_p13 \<le> 6566524655405 / 10000000000"
    unfolding phi4_p13_def by (rule iv_mul [OF b_phi4_p11 b_phi4_p2]) (simp_all add: power_divide)
  have nn_phi4: "0 \<le> phi4" using b_phi4 by linarith
  define s4phi :: real where "s4phi = sin phi4"
  have b_s4phi: "99709034932 / 100000000000 \<le> s4phi \<and> s4phi \<le> 99709109868 / 100000000000"
    unfolding s4phi_def using sin_chain [OF nn_phi4 phi4_p2_def phi4_p3_def phi4_p5_def phi4_p7_def phi4_p9_def phi4_p11_def phi4_p13_def] b_phi4 b_phi4_p3 b_phi4_p5 b_phi4_p7 b_phi4_p9 b_phi4_p11 b_phi4_p13 by linarith
  define m3s :: real where "m3s = m3 * s4phi"
  have b_m3s: "27180812589 / 10000000000000000 \<le> m3s \<and> m3s \<le> 27180833018 / 10000000000000000"
    unfolding m3s_def by (rule iv_mul [OF b_m3 b_s4phi]) (simp_all add: power_divide)
  define phi6 :: real where "phi6 = 6 * phi"
  have b_phi6: "24706392 / 10000000 \<le> phi6 \<and> phi6 \<le> 24706395 / 10000000"
    unfolding phi6_def using b_phi by linarith
  define phi6_p2 :: real where "phi6_p2 = phi6 * phi6"
  have b_phi6_p2: "6104058056576 / 1000000000000 \<le> phi6_p2 \<and> phi6_p2 \<le> 6104059538961 / 1000000000000"
    unfolding phi6_p2_def by (rule iv_mul [OF b_phi6 b_phi6]) (simp_all add: power_divide)
  define phi6_p3 :: real where "phi6_p3 = phi6_p2 * phi6"
  have b_phi6_p3: "1508092511365 / 100000000000 \<le> phi6_p3 \<and> phi6_p3 \<le> 1508093060731 / 100000000000"
    unfolding phi6_p3_def by (rule iv_mul [OF b_phi6_p2 b_phi6]) (simp_all add: power_divide)
  define phi6_p4 :: real where "phi6_p4 = phi6_p2 * phi6_p2"
  have b_phi6_p4: "3725952475805 / 100000000000 \<le> phi6_p4 \<and> phi6_p4 \<le> 3725954285519 / 100000000000"
    unfolding phi6_p4_def by (rule iv_mul [OF b_phi6_p2 b_phi6_p2]) (simp_all add: power_divide)
  define phi6_p5 :: real where "phi6_p5 = phi6_p3 * phi6_p2"
  have b_phi6_p5: "9205484244059 / 100000000000 \<le> phi6_p5 \<and> phi6_p5 \<le> 9205489832996 / 100000000000"
    unfolding phi6_p5_def by (rule iv_mul [OF b_phi6_p3 b_phi6_p2]) (simp_all add: power_divide)
  define phi6_p6 :: real where "phi6_p6 = phi6_p4 * phi6_p2"
  have b_phi6_p6: "2274343022835 / 10000000000 \<le> phi6_p6 \<and> phi6_p6 \<le> 2274344679826 / 10000000000"
    unfolding phi6_p6_def by (rule iv_mul [OF b_phi6_p4 b_phi6_p2]) (simp_all add: power_divide)
  define phi6_p7 :: real where "phi6_p7 = phi6_p5 * phi6_p2"
  have b_phi6_p7: "5619081026463 / 10000000000 \<le> phi6_p7 \<and> phi6_p7 \<le> 5619085802591 / 10000000000"
    unfolding phi6_p7_def by (rule iv_mul [OF b_phi6_p5 b_phi6_p2]) (simp_all add: power_divide)
  define phi6_p8 :: real where "phi6_p8 = phi6_p6 * phi6_p2"
  have b_phi6_p8: "1388272185195 / 1000000000 \<le> phi6_p8 \<and> phi6_p8 \<le> 1388273533778 / 1000000000"
    unfolding phi6_p8_def by (rule iv_mul [OF b_phi6_p6 b_phi6_p2]) (simp_all add: power_divide)
  define phi6_p9 :: real where "phi6_p9 = phi6_p7 * phi6_p2"
  have b_phi6_p9: "3429919681013 / 1000000000 \<le> phi6_p9 \<and> phi6_p9 \<le> 3429923429355 / 1000000000"
    unfolding phi6_p9_def by (rule iv_mul [OF b_phi6_p7 b_phi6_p2]) (simp_all add: power_divide)
  define phi6_p10 :: real where "phi6_p10 = phi6_p8 * phi6_p2"
  have b_phi6_p10: "8474094016759 / 1000000000 \<le> phi6_p10 \<and> phi6_p10 \<le> 8474104306545 / 1000000000"
    unfolding phi6_p10_def by (rule iv_mul [OF b_phi6_p8 b_phi6_p2]) (simp_all add: power_divide)
  define phi6_p11 :: real where "phi6_p11 = phi6_p9 * phi6_p2"
  have b_phi6_p11: "2093642886229 / 100000000 \<le> phi6_p11 \<and> phi6_p11 \<le> 2093645682687 / 100000000"
    unfolding phi6_p11_def by (rule iv_mul [OF b_phi6_p9 b_phi6_p2]) (simp_all add: power_divide)
  define phi6_p12 :: real where "phi6_p12 = phi6_p10 * phi6_p2"
  have b_phi6_p12: "5172636185518 / 100000000 \<le> phi6_p12 \<and> phi6_p12 \<le> 5172643722652 / 100000000"
    unfolding phi6_p12_def by (rule iv_mul [OF b_phi6_p10 b_phi6_p2]) (simp_all add: power_divide)
  define phi6_p13 :: real where "phi6_p13 = phi6_p11 * phi6_p2"
  have b_phi6_p13: "1277971772727 / 10000000 \<le> phi6_p13 \<and> phi6_p13 \<le> 1277973790062 / 10000000"
    unfolding phi6_p13_def by (rule iv_mul [OF b_phi6_p11 b_phi6_p2]) (simp_all add: power_divide)
  have nn_phi6: "0 \<le> phi6" using b_phi6 by linarith
  define s6phi :: real where "s6phi = sin phi6"
  have b_s6phi: "62169156851 / 100000000000 \<le> s6phi \<and> s6phi \<le> 62173440174 / 100000000000"
    unfolding s6phi_def using sin_chain [OF nn_phi6 phi6_p2_def phi6_p3_def phi6_p5_def phi6_p7_def phi6_p9_def phi6_p11_def phi6_p13_def] b_phi6 b_phi6_p3 b_phi6_p5 b_phi6_p7 b_phi6_p9 b_phi6_p11 b_phi6_p13 by linarith
  define m4s :: real where "m4s = m4 * s6phi"
  have b_m4s: "22305971268 / 10000000000000000000 \<le> m4s \<and> m4s \<le> 22307508104 / 10000000000000000000"
    unfolding m4s_def by (rule iv_mul [OF b_m4 b_s6phi]) (simp_all add: power_divide)
  define Min :: real where "Min = m1p - m2s + m3s - m4s"
  have b_Min: "4091999047 / 10000000000 \<le> Min \<and> Min \<le> 40919995499 / 100000000000"
    unfolding Min_def using b_m1p b_m2s b_m3s b_m4s by linarith
  define M :: real where "M = ac * Min"
  have b_M: "26099789422 / 10000 \<le> M \<and> M \<le> 26099792631 / 10000"
    unfolding M_def by (rule iv_mul [OF b_ac b_Min]) (simp_all add: power_divide)
  define A3 :: real where "A3 = A ^ 3"
  have b_A3: "10889646856 / 1000000000000000 \<le> A3 \<and> A3 \<le> 10889784951 / 1000000000000000"
    unfolding A3_def by (rule iv_pow [OF b_A]) (simp_all add: power_divide)
  define A5 :: real where "A5 = A ^ 5"
  have b_A5: "53500313492 / 10000000000000000000 \<le> A5 \<and> A5 \<le> 53501444254 / 10000000000000000000"
    unfolding A5_def by (rule iv_pow [OF b_A]) (simp_all add: power_divide)
  define A4 :: real where "A4 = A ^ 4"
  have b_A4: "2413709843 / 10000000000000000 \<le> A4 \<and> A4 \<le> 24137506551 / 100000000000000000"
    unfolding A4_def by (rule iv_pow [OF b_A]) (simp_all add: power_divide)
  define A6 :: real where "A6 = A ^ 6"
  have b_A6: "11858440864 / 100000000000000000000 \<le> A6 \<and> A6 \<le> 11858741628 / 100000000000000000000"
    unfolding A6_def by (rule iv_pow [OF b_A]) (simp_all add: power_divide)
  define AA :: real where "AA = A * A"
  have b_AA: "49129521094 / 100000000000000 \<le> AA \<and> AA \<le> 49129936445 / 100000000000000"
    unfolding AA_def by (rule iv_mul [OF b_A b_A]) (simp_all add: power_divide)
  define c3 :: real where "c3 = 1 - T + C"
  have b_c3: "81501005389 / 100000000000 \<le> c3 \<and> c3 \<le> 81501011476 / 100000000000"
    unfolding c3_def using b_T b_C by linarith
  define c3A :: real where "c3A = c3 * A3"
  have b_c3A: "88751716709 / 10000000000000000 \<le> c3A \<and> c3A \<le> 88752848827 / 10000000000000000"
    unfolding c3A_def by (rule iv_mul [OF b_c3 b_A3]) (simp_all add: power_divide)
  define TT :: real where "TT = T * T"
  have b_TT: "36382775669 / 1000000000000 \<le> TT \<and> TT \<le> 36382798788 / 1000000000000"
    unfolding TT_def by (rule iv_mul [OF b_T b_T]) (simp_all add: power_divide)
  define e58 :: real where "e58 = (58 * e2c) / (1 - e2c)"
  have b_e58: "39730673526 / 100000000000 \<le> e58 \<and> e58 \<le> 39730673527 / 100000000000"
    unfolding e58_def e2c_def by (simp add: power_divide)
  define c5 :: real where "c5 = 5 - 18 * T + TT + 72 * C - e58"
  have b_c5: "16199087191 / 10000000000 \<le> c5 \<and> c5 \<le> 16199098523 / 10000000000"
    unfolding c5_def using b_T b_TT b_C b_e58 by linarith
  define c5A :: real where "c5A = c5 * A5"
  have b_c5A: "866656243 / 100000000000000000 \<le> c5A \<and> c5A \<le> 8666751666 / 1000000000000000000"
    unfolding c5A_def by (rule iv_mul [OF b_c5 b_A5]) (simp_all add: power_divide)
  define S :: real where "S = A + c3A / 6 + c5A / 120"
  have b_S: "22166659414 / 1000000000000 \<le> S \<and> S \<le> 22166753128 / 1000000000000"
    unfolding S_def using b_A b_c3A b_c5A by linarith
  define kN :: real where "kN = k0 * N"
  have b_kN: "63791749357 / 10000 \<le> kN \<and> kN \<le> 63791749369 / 10000"
    unfolding kN_def by (rule iv_mul [OF b_k0 b_N]) (simp_all add: power_divide)
  define kNS :: real where "kNS = kN * S"
  have b_kNS: "14140499814 / 100000 \<le> kNS \<and> kNS \<le> 14140559599 / 100000"
    unfolding kNS_def by (rule iv_mul [OF b_kN b_S]) (simp_all add: power_divide)
  define E :: real where "E = 500000 + kNS"
  have b_E: "64140499814 / 100000 \<le> E \<and> E \<le> 64140559599 / 100000"
    unfolding E_def using b_kNS by linarith
  define Nt :: real where "Nt = N * tn"
  have b_Nt: "27871620605 / 10000 \<le> Nt \<and> Nt \<le> 27871625038 / 10000"
    unfolding Nt_def by (rule iv_mul [OF b_N b_tn]) (simp_all add: power_divide)
  define C4 :: real where "C4 = 4 * C"
  have b_C4: "2301123768 / 100000000000 \<le> C4 \<and> C4 \<le> 23011238746 / 1000000000000"
    unfolding C4_def using b_C by linarith
  define C4C :: real where "C4C = C4 * C"
  have b_C4C: "13237926489 / 100000000000000 \<le> C4C \<and> C4C \<le> 13237927716 / 100000000000000"
    unfolding C4C_def by (rule iv_mul [OF b_C4 b_C]) (simp_all add: power_divide)
  define c4 :: real where "c4 = 5 - T + 9 * C + C4C"
  have b_c4: "48611649085 / 10000000000 \<le> c4 \<and> c4 \<le> 48611649716 / 10000000000"
    unfolding c4_def using b_T b_C b_C4C by linarith
  define c4A :: real where "c4A = c4 * A4"
  have b_c4A: "11733441588 / 10000000000000000 \<le> c4A \<and> c4A \<le> 11733640135 / 10000000000000000"
    unfolding c4A_def by (rule iv_mul [OF b_c4 b_A4]) (simp_all add: power_divide)
  define e330 :: real where "e330 = (330 * e2c) / (1 - e2c)"
  have b_e330: "22605383213 / 10000000000 \<le> e330 \<and> e330 \<le> 22605383214 / 10000000000"
    unfolding e330_def e2c_def by (simp add: power_divide)
  define c6 :: real where "c6 = 61 - 58 * T + TT + 600 * C - e330"
  have b_c6: "51164450285 / 1000000000 \<le> c6 \<and> c6 \<le> 51164453984 / 1000000000"
    unfolding c6_def using b_T b_TT b_C b_e330 by linarith
  define c6A :: real where "c6A = c6 * A6"
  have b_c6A: "60673060804 / 10000000000000000000 \<le> c6A \<and> c6A \<le> 60674604034 / 10000000000000000000"
    unfolding c6A_def by (rule iv_mul [OF b_c6 b_A6]) (simp_all add: power_divide)
  define S2 :: real where "S2 = AA / 2 + c4A / 24 + c6A / 720"
  have b_S2: "24569650323 / 100000000000000 \<le> S2 \<and> S2 \<le> 24569858082 / 100000000000000"
    unfolding S2_def using b_AA b_c4A b_c6A by linarith
  define NtS :: real where "NtS = Nt * S2"
  have b_NtS: "6847959722 / 10000000 \<le> NtS \<and> NtS \<le> 6848018717 / 10000000"
    unfolding NtS_def by (rule iv_mul [OF b_Nt b_S2]) (simp_all add: power_divide)
  define MN :: real where "MN = M + NtS"
  have b_MN: "26106637381 / 10000 \<le> MN \<and> MN \<le> 2610664065 / 1000"
    unfolding MN_def using b_M b_NtS by linarith
  define Nn :: real where "Nn = k0 * MN"
  have b_Nn: "26096194726 / 10000 \<le> Nn \<and> Nn \<le> 26096197994 / 10000"
    unfolding Nn_def by (rule iv_mul [OF b_k0 b_MN]) (simp_all add: power_divide)
  have eqE: "utm_easting (psd93ToUTM lat lon 40) = E"
    unfolding E_def kNS_def kN_def S_def c5A_def c5_def e58_def TT_def c3A_def c3_def
      A3_def A5_def A_def dl_def C_def Cc_def ep2_def T_def tn_def N_def sq_def w_def e2ss_def e2s_def
      sphi_def cphi_def k0_def ac_def e2c_def lon0_def lam_def phi_def
    by (simp only: psd93ToUTM_def Let_def utm.simps)
  have eqN: "utm_northing (psd93ToUTM lat lon 40) = Nn"
    unfolding Nn_def MN_def NtS_def S2_def c6A_def c6_def e330_def c4A_def c4_def C4C_def C4_def Nt_def
      AA_def A4_def A6_def M_def Min_def m4s_def m3s_def m2s_def s6phi_def s4phi_def s2phi_def
      phi6_def phi4_def phi2_def m1p_def
      m4_def m3_def m2_def m1_def TT_def
      A_def dl_def C_def Cc_def ep2_def T_def tn_def N_def sq_def w_def e2ss_def e2s_def
      sphi_def cphi_def k0_def ac_def e2c_def lon0_def lam_def phi_def
    by (simp only: psd93ToUTM_def Let_def utm.simps)
  show ?thesis unfolding eqE eqN using b_E b_Nn by blast
qed

lemma reference_point_bounds:
  "\<exists>la lo h. wgs84ToPSD93 23.588 58.3829 0 = (la, lo, h)
     \<and> (64140499814 / 100000 \<le> utm_easting (psd93ToUTM la lo 40) \<and> utm_easting (psd93ToUTM la lo 40) \<le> 64140559599 / 100000)
     \<and> (26096194726 / 10000 \<le> utm_northing (psd93ToUTM la lo 40) \<and> utm_northing (psd93ToUTM la lo 40) \<le> 26096197994 / 10000)"
proof -
  obtain X Y Z where A: "geodeticToECEF 23.588 58.3829 0 6378137.0 (1 / 298.257223563) = (X, Y, Z)"
      "30659430823 / 10000 \<le> X \<and> X \<le> 30659433312 / 10000"
      "49802882746 / 10000 \<le> Y \<and> Y \<le> 49802886063 / 10000"
      "253653086 / 100 \<le> Z \<and> Z \<le> 25365309506 / 10000"
    using geodeticToECEF_reference by blast
  obtain Xt Yt Zt where B: "helmertForward (X, Y, Z) = (Xt, Yt, Zt)"
      "30655890761 / 10000 \<le> Xt \<and> Xt \<le> 30655893251 / 10000"
      "49802798476 / 10000 \<le> Yt \<and> Yt \<le> 49802801795 / 10000"
      "25367558191 / 10000 \<le> Zt \<and> Zt \<le> 25367559098 / 10000"
    using helmertForward_reference [OF A(2-4)] by blast
  obtain la lo h where C: "ecefToGeodetic Xt Yt Zt 6378249.145 (1 / 293.465) = (la, lo, h)"
      "4117732 / 10000000 \<le> deg2rad la \<and> deg2rad la \<le> 41177325 / 100000000"
      "101902459 / 100000000 \<le> deg2rad lo \<and> deg2rad lo \<le> 101902466 / 100000000"
    using ecefToGeodetic_reference [OF B(2-4)] by blast
  have eq: "wgs84ToPSD93 23.588 58.3829 0 = (la, lo, h)"
    by (simp only: wgs84ToPSD93_def Let_def A(1) B(1) prod.case C(1))
  show ?thesis using eq psd93ToUTM_reference [OF C(2,3)] by blast
qed

text \<open>
  C1, as amended. The point WGS84 (23.588, 58.3829), converted by \<open>wgs84ToPSD93\<close> with
  height 0 and then by \<open>psd93ToUTM\<close> in zone 40, has an easting between 641404 m and
  641406 m and a northing between 2609619 m and 2609620 m: it lies 1.38 degrees east of
  the central meridian 57 E of the zone, some 141 km east of the false easting.
\<close>

theorem reference_point_utm:
  "641404 \<le> utm_easting (psd93ToUTM (fst (wgs84ToPSD93 23.588 58.3829 0))
                  (fst (snd (wgs84ToPSD93 23.588 58.3829 0))) 40)
   \<and> utm_easting (psd93ToUTM (fst (wgs84ToPSD93 23.588 58.3829 0))
                  (fst (snd (wgs84ToPSD93 23.588 58.3829 0))) 40) \<le> 641406
   \<and> 2609619 \<le> utm_northing (psd93ToUTM (fst (wgs84ToPSD93 23.588 58.3829 0))
                  (fst (snd (wgs84ToPSD93 23.588 58.3829 0))) 40)
   \<and> utm_northing (psd93ToUTM (fst (wgs84ToPSD93 23.588 58.3829 0))
                  (fst (snd (wgs84ToPSD93 23.588 58.3829 0))) 40) \<le> 2609620"
proof -
  obtain la lo h where r: "wgs84ToPSD93 23.588 58.3829 0 = (la, lo, h)"
      "64140499814 / 100000 \<le> utm_easting (psd93ToUTM la lo 40) \<and> utm_easting (psd93ToUTM la lo 40) \<le> 64140559599 / 100000"
      "26096194726 / 10000 \<le> utm_northing (psd93ToUTM la lo 40) \<and> utm_northing (psd93ToUTM la lo 40) \<le> 26096197994 / 10000"
    using reference_point_bounds by blast
  show ?thesis unfolding r(1) fst_conv snd_conv using r(2,3) by simp
qed

text \<open>
  C1 as stated fails: the easting of the reference point is not within 490000 to 510000.
\<close>

theorem reference_point_easting_not_near_500000:
  "\<not> (490000 \<le> utm_easting (psd93ToUTM (fst (wgs84ToPSD93 23.588 58.3829 0))
                  (fst (snd (wgs84ToPSD93 23.588 58.3829 0))) 40)
      \<and> utm_easting (psd93ToUTM (fst (wgs84ToPSD93 23.588 58.3829 0))
                  (fst (snd (wgs84ToPSD93 23.588 58.3829 0))) 40) \<le> 510000)"
proof -
  obtain la lo h where r: "wgs84ToPSD93 23.588 58.3829 0 = (la, lo, h)"
      "64140499814 / 100000 \<le> utm_easting (psd93ToUTM la lo 40) \<and> utm_easting (psd93ToUTM la lo 40) \<le> 64140559599 / 100000"
    using reference_point_bounds by blast
  show ?thesis unfolding r(1) fst_conv snd_conv using r(2) by simp
qed

end
